theory Spec2Isabelle
  imports Complex_Main "HOL-Library.Word"
begin

unbundle bit_operations_syntax

text \<open>
  A model of the tuner core of the OpenTheremin matrix display firmware: the frequency
  acquisition of \<open>freq.cpp\<close> (capture interrupts, \<open>freq_read\<close>), the pitch mapper
  \<open>HT1635::frequency_to_note\<close> and the view renderer of \<open>HT1635.cpp\<close> with the bus
  traffic it produces. The definitions come first, then some concrete states, then the
  properties.
\<close>

section \<open>Common types\<close>

text \<open>
  The firmware computes in single-precision \<open>float\<close>. A float is modelled as an
  extended real: a finite value carries the real number it stands for, and the three
  non-finite values of IEEE 754 are separate constructors; the code tests for them with
  \<open>isfinite\<close> and initialises its estimate to \<open>NAN\<close>. The frequency acquisition
  computes one quotient and one weighted mean for every accepted period, for which the
  model takes the exact values: what is proved about \<open>freq_read\<close> is which branch
  it takes and which variables it writes. The pitch mapper and the keyboard view are
  modelled with the rounding of every single operation, see the section on
  single-precision arithmetic.
\<close>

datatype cfloat = Fin real | PInf | NInf | NaN

fun isfinite :: "cfloat \<Rightarrow> bool" where
  "isfinite (Fin _) = True"
| "isfinite _ = False"

text \<open>The C comparison \<open>a < b\<close> on floats: false as soon as one side is NaN.\<close>

fun fless :: "cfloat \<Rightarrow> cfloat \<Rightarrow> bool" where
  "fless NaN _ = False"
| "fless _ NaN = False"
| "fless (Fin a) (Fin b) = (a < b)"
| "fless (Fin _) PInf = True"
| "fless (Fin _) NInf = False"
| "fless PInf _ = False"
| "fless NInf NInf = False"
| "fless NInf _ = True"

text \<open>Conversion of a float to an integer type truncates towards zero.\<close>

definition trunc_real :: "real \<Rightarrow> int" where
  "trunc_real x = (if 0 \<le> x then \<lfloor>x\<rfloor> else \<lceil>x\<rceil>)"

type_synonym u8 = "8 word"
type_synonym u16 = "16 word"
type_synonym u32 = "32 word"

section \<open>Frequency acquisition (freq.cpp)\<close>

text \<open>
  Modelled from the spec: \<open>F_CPU\<close> is the clock frequency the board is built for, a
  build flag that no source file defines. The specification speaks of a "fixed,
  configured tick rate (derived from system clock and a divider)"; freq.cpp documents
  the 16 MHz board ("2,000,000 at 16 MHz", about 200 and 66666 ticks for the band
  limits), which is the value taken here.
\<close>

definition F_CPU :: nat where
  "F_CPU = 16000000"

definition TIMER1_PRESCALER :: nat where
  "TIMER1_PRESCALER = 8"

definition TIMER1_CLK_HZ :: nat where
  "TIMER1_CLK_HZ = F_CPU div TIMER1_PRESCALER"

definition FREQ_MIN_HZ :: real where
  "FREQ_MIN_HZ = 30"

definition FREQ_MAX_HZ :: real where
  "FREQ_MAX_HZ = 10000"

definition TICKS_MIN :: u32 where
  "TICKS_MIN = word_of_int (trunc_real (real TIMER1_CLK_HZ / FREQ_MAX_HZ))"

definition TICKS_MAX :: u32 where
  "TICKS_MAX = word_of_int (trunc_real (real TIMER1_CLK_HZ / FREQ_MIN_HZ))"

definition NO_SIGNAL_TIMEOUT_MS :: u32 where
  "NO_SIGNAL_TIMEOUT_MS = 120"

definition EMA_NUM :: real where
  "EMA_NUM = 1"

definition EMA_DEN :: real where
  "EMA_DEN = 4"

text \<open>The module state: the three variables shared with the interrupt handlers, then
  the foreground's own.\<close>

record freq_state =
  s_ovf :: u16
  s_icr32 :: u32
  s_newCap :: bool
  s_prevIcr32 :: u32
  s_freq_ema :: cfloat
  s_freq_raw :: cfloat
  s_lastOkMs :: u32

text \<open>\<open>freq_init\<close>; its argument is the value \<open>millis()\<close> returns. The timer
  registers it programs are outside the model.\<close>

definition freq_init :: "u32 \<Rightarrow> freq_state" where
  "freq_init now =
     \<lparr>s_ovf = 0, s_icr32 = 0, s_newCap = False, s_prevIcr32 = 0,
      s_freq_ema = NaN, s_freq_raw = NaN, s_lastOkMs = now\<rparr>"

text \<open>The capture interrupt. \<open>icr\<close> is the latched \<open>ICR1\<close>, \<open>tov\<close> the pending
  overflow flag \<open>TIFR1 & _BV(TOV1)\<close>.\<close>

definition isr_capt :: "u16 \<Rightarrow> bool \<Rightarrow> freq_state \<Rightarrow> freq_state" where
  "isr_capt icr tov s =
     (let ovf = s_ovf s;
          ovf = (if tov \<and> icr < 0x8000 then ovf + 1 else ovf)
      in s\<lparr>s_icr32 := push_bit 16 (ucast ovf) OR ucast icr, s_newCap := True\<rparr>)"

text \<open>The overflow interrupt.\<close>

definition isr_ovf :: "freq_state \<Rightarrow> freq_state" where
  "isr_ovf s = s\<lparr>s_ovf := s_ovf s + 1\<rparr>"

text \<open>
  \<open>freq_read\<close>. The atomic block runs with interrupts off, so it is one step of the
  model. \<open>millis()\<close> is read at most twice, when a valid period is accepted and at the
  timeout test: \<open>ms_ok\<close> and \<open>ms_chk\<close> are those two readings. The result is the
  returned float and the new state.
\<close>

definition freq_read :: "u32 \<Rightarrow> u32 \<Rightarrow> freq_state \<Rightarrow> cfloat \<times> freq_state" where
  "freq_read ms_ok ms_chk s =
     (let have = s_newCap s;
          cap = (if have then s_icr32 s else 0);
          s = (if have then s\<lparr>s_newCap := False\<rparr> else s)
      in
        if have \<and> s_prevIcr32 s = 0 then (s_freq_ema s, s\<lparr>s_prevIcr32 := cap\<rparr>)
        else
          let s =
            (if have then
               (let ticks = cap - s_prevIcr32 s;
                    s = s\<lparr>s_prevIcr32 := cap\<rparr>
                in
                  if TICKS_MIN \<le> ticks \<and> ticks \<le> TICKS_MAX then
                    (let f = Fin (real TIMER1_CLK_HZ / real (unat ticks))
                     in
                       if isfinite f then
                         (let s = s\<lparr>s_freq_raw := f\<rparr>;
                              s = (case (s_freq_ema s, f) of
                                     (Fin ema, Fin fr) \<Rightarrow>
                                        s\<lparr>s_freq_ema := Fin (ema + (fr - ema) * (EMA_NUM / EMA_DEN))\<rparr>
                                   | _ \<Rightarrow> s\<lparr>s_freq_ema := f\<rparr>)
                          in s\<lparr>s_lastOkMs := ms_ok\<rparr>)
                       else s)
                  else s)
             else s)
          in
            if ms_chk - s_lastOkMs s > NO_SIGNAL_TIMEOUT_MS then (Fin 0, s)
            else (s_freq_ema s, s))"

text \<open>The states the module can be in: after an initialisation, and after any
  interrupt or foreground read from there.\<close>

inductive reachable :: "freq_state \<Rightarrow> bool" where
  r_init: "reachable (freq_init now)"
| r_capt: "reachable s \<Longrightarrow> reachable (isr_capt icr tov s)"
| r_ovf: "reachable s \<Longrightarrow> reachable (isr_ovf s)"
| r_read: "reachable s \<Longrightarrow> reachable (snd (freq_read ms_ok ms_chk s))"

text \<open>The lowest frequency an accepted period can give.\<close>

definition lowest_reading :: real where
  "lowest_reading = real TIMER1_CLK_HZ / real (unat TICKS_MAX)"

definition ema_ok :: "freq_state \<Rightarrow> bool" where
  "ema_ok s = (case s_freq_ema s of Fin e \<Rightarrow> lowest_reading \<le> e | NaN \<Rightarrow> True | _ \<Rightarrow> False)"

section \<open>Machine integers\<close>

text \<open>The C operators \<open>/\<close> and \<open>%\<close> on integers truncate towards zero.\<close>

definition c_div :: "int \<Rightarrow> int \<Rightarrow> int" where
  "c_div a b = sgn a * sgn b * (\<bar>a\<bar> div \<bar>b\<bar>)"

definition c_mod :: "int \<Rightarrow> int \<Rightarrow> int" where
  "c_mod a b = sgn a * (\<bar>a\<bar> mod \<bar>b\<bar>)"

text \<open>Conversions to the fixed-width types keep the low bits (on the AVR \<open>int\<close> is
  16 bits wide).\<close>

definition int16_cast :: "int \<Rightarrow> int" where
  "int16_cast x = sint (word_of_int x :: 16 word)"

definition int8_cast :: "int \<Rightarrow> int" where
  "int8_cast x = sint (word_of_int x :: 8 word)"

definition uint8_cast :: "int \<Rightarrow> int" where
  "uint8_cast x = uint (word_of_int x :: 8 word)"

definition constrain :: "int \<Rightarrow> int \<Rightarrow> int \<Rightarrow> int" where
  "constrain x lo hi = (if x < lo then lo else if hi < x then hi else x)"

text \<open>The C comparison \<open>a <= b\<close> on floats.\<close>

fun fle :: "cfloat \<Rightarrow> cfloat \<Rightarrow> bool" where
  "fle NaN _ = False"
| "fle _ NaN = False"
| "fle (Fin a) (Fin b) = (a \<le> b)"
| "fle NInf _ = True"
| "fle _ PInf = True"
| "fle PInf _ = False"
| "fle (Fin _) NInf = False"

section \<open>Single-precision arithmetic\<close>

text \<open>
  The pitch mapper and the keyboard view compute in \<open>float\<close>, the IEEE 754 binary32
  format (on the AVR \<open>double\<close> is the same format, so no intermediate result is kept
  wider). Every operation gives the exact result rounded to the nearest representable
  number, a tie going to the even significand. The sign of a zero is not modelled.
\<close>

text \<open>Rounding a real to the nearest integer, ties to even.\<close>

definition rne :: "real \<Rightarrow> int" where
  "rne x = (let n = \<lfloor>x\<rfloor>; d = x - of_int n in
      if d < 1 / 2 then n else if 1 / 2 < d then n + 1 else if even n then n else n + 1)"

text \<open>The largest finite value, \<open>(2 - 2^-23) * 2^127\<close>.\<close>

definition FLT_MAX :: real where
  "FLT_MAX = (2 - 1 / 2 ^ 23) * 2 ^ 127"

text \<open>The exponent of the binade that holds \<open>x\<close>; below \<open>2^-126\<close> the numbers are
  subnormal and keep the exponent \<open>-126\<close>.\<close>

definition float_exponent :: "real \<Rightarrow> int" where
  "float_exponent x = max \<lfloor>log 2 \<bar>x\<bar>\<rfloor> (- 126)"

text \<open>
  \<open>rnd x\<close> is the float that an operation with the exact result \<open>x\<close> returns: the
  multiple of the unit in the last place \<open>2^(e - 23)\<close> nearest to \<open>x\<close>, and an
  infinity when that exceeds \<open>FLT_MAX\<close>.
\<close>

definition rnd :: "real \<Rightarrow> cfloat" where
  "rnd x = (if x = 0 then Fin 0 else
     (let u = 2 powi (float_exponent x - 23); y = of_int (rne (x / u)) * u
      in if FLT_MAX < \<bar>y\<bar> then (if 0 < x then PInf else NInf) else Fin y))"

fun fneg :: "cfloat \<Rightarrow> cfloat" where
  "fneg (Fin a) = Fin (- a)"
| "fneg PInf = NInf"
| "fneg NInf = PInf"
| "fneg NaN = NaN"

fun fadd :: "cfloat \<Rightarrow> cfloat \<Rightarrow> cfloat" where
  "fadd NaN _ = NaN"
| "fadd _ NaN = NaN"
| "fadd (Fin a) (Fin b) = rnd (a + b)"
| "fadd PInf NInf = NaN"
| "fadd NInf PInf = NaN"
| "fadd PInf _ = PInf"
| "fadd _ PInf = PInf"
| "fadd NInf _ = NInf"
| "fadd _ NInf = NInf"

definition fsub :: "cfloat \<Rightarrow> cfloat \<Rightarrow> cfloat" where
  "fsub x y = fadd x (fneg y)"

fun fmul :: "cfloat \<Rightarrow> cfloat \<Rightarrow> cfloat" where
  "fmul NaN _ = NaN"
| "fmul _ NaN = NaN"
| "fmul (Fin a) (Fin b) = rnd (a * b)"
| "fmul (Fin a) PInf = (if a = 0 then NaN else if 0 < a then PInf else NInf)"
| "fmul (Fin a) NInf = (if a = 0 then NaN else if 0 < a then NInf else PInf)"
| "fmul PInf (Fin b) = (if b = 0 then NaN else if 0 < b then PInf else NInf)"
| "fmul NInf (Fin b) = (if b = 0 then NaN else if 0 < b then NInf else PInf)"
| "fmul PInf PInf = PInf"
| "fmul PInf NInf = NInf"
| "fmul NInf PInf = NInf"
| "fmul NInf NInf = PInf"

fun fdiv :: "cfloat \<Rightarrow> cfloat \<Rightarrow> cfloat" where
  "fdiv NaN _ = NaN"
| "fdiv _ NaN = NaN"
| "fdiv (Fin a) (Fin b) =
     (if b = 0 then (if a = 0 then NaN else if 0 < a then PInf else NInf) else rnd (a / b))"
| "fdiv (Fin a) PInf = Fin 0"
| "fdiv (Fin a) NInf = Fin 0"
| "fdiv PInf (Fin b) = (if 0 \<le> b then PInf else NInf)"
| "fdiv NInf (Fin b) = (if 0 \<le> b then NInf else PInf)"
| "fdiv PInf PInf = NaN"
| "fdiv PInf NInf = NaN"
| "fdiv NInf PInf = NaN"
| "fdiv NInf NInf = NaN"

text \<open>The conversion of a float to an integer type truncates a finite value. For a
  value that is not finite the C standard leaves the result undefined; the model takes
  0.\<close>

fun float_to_int :: "cfloat \<Rightarrow> int" where
  "float_to_int (Fin x) = trunc_real x"
| "float_to_int _ = 0"

text \<open>The C library's \<open>floorf\<close>; the floor of a float is a float.\<close>

fun floorf :: "cfloat \<Rightarrow> cfloat" where
  "floorf (Fin x) = Fin (of_int \<lfloor>x\<rfloor>)"
| "floorf x = x"

text \<open>
  The C library's \<open>logf\<close> is not part of the repository: the functions that call it
  take it as their first argument \<open>lf\<close>. \<open>logf_cr\<close> is the correctly rounded
  logarithm, the float nearest to the natural logarithm of the argument, with the
  special values the C standard prescribes.
\<close>

fun logf_cr :: "cfloat \<Rightarrow> cfloat" where
  "logf_cr (Fin x) = (if x < 0 then NaN else if x = 0 then NInf else rnd (ln x))"
| "logf_cr PInf = PInf"
| "logf_cr NInf = NaN"
| "logf_cr NaN = NaN"

text \<open>A \<open>logf\<close> that returns a number for every argument that is not negative (minus
  infinity at 0 is one).\<close>

definition logf_defined :: "(cfloat \<Rightarrow> cfloat) \<Rightarrow> bool" where
  "logf_defined lf = (\<forall>x. fle (Fin 0) x \<longrightarrow> lf x \<noteq> NaN)"

text \<open>A \<open>logf\<close> that is within \<open>10^-5\<close> of the natural logarithm on the positive
  finite floats: their logarithms lie between -104 and 89, where the floats are at most
  \<open>2^-17\<close>, about \<open>0.76 * 10^-5\<close>, apart.\<close>

definition logf_accurate :: "(cfloat \<Rightarrow> cfloat) \<Rightarrow> bool" where
  "logf_accurate lf =
     (\<forall>x. 1 / 2 ^ 149 \<le> x \<and> x \<le> 2 ^ 128 \<longrightarrow>
          (\<exists>l. lf (Fin x) = Fin l \<and> \<bar>l - ln x\<bar> \<le> 1 / 100000))"

section \<open>The pitch mapper (HT1635.cpp)\<close>

text \<open>
  \<open>INV_LN2\<close> is declared in HT1635.h as the float literal \<open>1.4426950408889634f\<close>:
  the constant is the float nearest to that decimal, \<open>12102203 / 2^23\<close>, a little
  above \<open>1 / ln 2\<close>.
\<close>

definition INV_LN2 :: real where
  "INV_LN2 = 12102203 / 8388608"

definition note_names :: "string list" where
  "note_names = [''C '', ''C#'', ''D '', ''D#'', ''E '', ''F '', ''F#'', ''G '', ''G#'',
                 ''A '', ''A#'', ''B '']"

text \<open>Lines 59-61: the reference pitch in use.\<close>

definition concert_a_or_default :: "cfloat \<Rightarrow> real" where
  "concert_a_or_default pitch_concert_a =
     (case pitch_concert_a of
        Fin a \<Rightarrow> if a \<le> 0 then 440 else a
      | _ \<Rightarrow> 440)"

text \<open>Lines 69-72: the MIDI note number as a float,
  \<open>69.0f + 12.0f * (logf(freq / pitch_concert_a) * INV_LN2)\<close>.\<close>

definition midi_float :: "(cfloat \<Rightarrow> cfloat) \<Rightarrow> cfloat \<Rightarrow> cfloat \<Rightarrow> cfloat" where
  "midi_float lf freq pitch_concert_a =
     (let ratio = fmul (lf (fdiv freq pitch_concert_a)) (Fin INV_LN2)
      in fadd (Fin 69) (fmul (Fin 12) ratio))"

text \<open>Line 75: \<open>(int16_t)(midi_f + (midi_f >= 0.0f ? 0.5f : -0.5f))\<close>.\<close>

definition midi_round :: "cfloat \<Rightarrow> int" where
  "midi_round midi_f =
     int16_cast (float_to_int (fadd midi_f (if fle (Fin 0) midi_f then Fin (1 / 2)
                                            else Fin (- (1 / 2)))))"

text \<open>Line 82: the cents before the clamp, \<open>(midi_f - (float)midi_i) * 100.0f\<close>. A
  16-bit integer converts to a float exactly.\<close>

definition cents_float :: "cfloat \<Rightarrow> int \<Rightarrow> cfloat" where
  "cents_float midi_f midi_i = fmul (fsub midi_f (Fin (real_of_int midi_i))) (Fin 100)"

text \<open>The float literal \<open>49.99f\<close> of the clamp: the float nearest to 49.99,
  \<open>13104579 / 2^18\<close>, which is a little above 49.99.\<close>

definition CENTS_LIMIT :: real where
  "CENTS_LIMIT = 13104579 / 262144"

text \<open>Lines 91-107: the text \<open><note><octave>\<close> written to the static buffer.\<close>

definition note_text :: "int \<Rightarrow> int \<Rightarrow> string" where
  "note_text note_index octave =
     (let nm = note_names ! nat note_index;
          res = [nm ! 0, nm ! 1];
          o1 = octave;
          res = (if o1 < 0 then res @ [CHR ''-''] else res);
          o1 = (if o1 < 0 then int8_cast (- o1) else o1);
          res = (if 10 \<le> o1 then res @ [CHR ''1''] else res);
          o1 = (if 10 \<le> o1 then int8_cast (o1 - 10) else o1)
      in res @ [char_of (48 + o1)])"

text \<open>
  \<open>frequency_to_note\<close>. The result is the returned text with the values stored
  through \<open>cent_drift\<close> and \<open>midi_note\<close> (both pointers are non-null at the only
  call). The first case is the guard \<open>!isfinite(freq) || freq < 1.0f\<close>. The debug
  prints to the serial port are outside the model.
\<close>

definition frequency_to_note ::
  "(cfloat \<Rightarrow> cfloat) \<Rightarrow> cfloat \<Rightarrow> cfloat \<Rightarrow> string \<times> cfloat \<times> int" where
  "frequency_to_note lf freq pitch_concert_a =
     (case freq of
        Fin f \<Rightarrow>
          if f < 1 then ('''', Fin 0, 0)
          else
            (let a = concert_a_or_default pitch_concert_a;
                 midi_f = midi_float lf (Fin f) (Fin a);
                 midi_i = midi_round midi_f;
                 note_index = uint8_cast (c_mod (c_mod midi_i 12 + 12) 12);
                 octave = int8_cast (c_div midi_i 12 - 1);
                 cents = cents_float midi_f midi_i;
                 cents = (if fless (Fin CENTS_LIMIT) cents then Fin CENTS_LIMIT
                          else if fless cents (Fin (- CENTS_LIMIT)) then Fin (- CENTS_LIMIT)
                          else cents)
             in (note_text note_index octave, cents, midi_i))
      | _ \<Rightarrow> ('''', Fin 0, 0))"

text \<open>Rounding to the nearest integer, a tie going away from zero: the rule the
  specification names for the MIDI number.\<close>

definition round_half_away :: "real \<Rightarrow> int" where
  "round_half_away x = (if x < 0 then - \<lfloor>- x + 1 / 2\<rfloor> else \<lfloor>x + 1 / 2\<rfloor>)"

section \<open>The display and the view renderer (HT1635.cpp)\<close>

text \<open>
  The glyph tables of \<open>bitmap_fonts.h\<close> are parameters of the model: a table is a
  function from its indices to the byte stored there, and the keyboard bitmap is the
  list of its bytes. \<open>Font_6x8\<close> is indexed by the character code minus \<open>0x20\<close>.
\<close>

record rom =
  Font_6x8 :: "int \<Rightarrow> nat \<Rightarrow> u8"
  font_small_numbers :: "nat \<Rightarrow> nat \<Rightarrow> u8"
  font_tall6_notes_condensed :: "nat \<Rightarrow> nat \<Rightarrow> u8"
  font_tall6_alterations :: "nat \<Rightarrow> nat \<Rightarrow> u8"
  font_micro_numbers :: "nat \<Rightarrow> nat \<Rightarrow> u8"
  font_keyboard :: "u8 list"

text \<open>What the renderer does to the bus, in order: the calls of the \<open>Wire\<close>
  library and the settle delays.\<close>

datatype wire_ev = BeginTransmission u8 | WireWrite u8 | EndTransmission | Delay nat

datatype tuner_view_mode_t = numeric | bar_graph | piano_view | tuner_view_mode_t_last

text \<open>
  The state of the renderer: the members of class \<open>HT1635\<close> that the rendering
  functions use, the four file-scope variables of the keyboard view (\<open>int8_t\<close> and
  \<open>uint8_t\<close>, held as integers), and the bus trace so far.
\<close>

record ht1635 =
  device_i2c_addr :: u8
  memory_pointer :: u8
  bitmap_buffer :: "u8 list"
  tuner_view_mode :: tuner_view_mode_t
  s_prev_col :: int
  s_prev_note_idx :: int
  s_prev_alt :: int
  s_prev_octave :: int
  wire :: "wire_ev list"

definition HT1635_I2C_ADDRESS :: u8 where
  "HT1635_I2C_ADDRESS = 0x68"

definition HT_RAM_LAST_ADDRESS :: nat where
  "HT_RAM_LAST_ADDRESS = 40"

definition CMD_DISPLAY_DATA_INPUT_COMMAND :: u8 where
  "CMD_DISPLAY_DATA_INPUT_COMMAND = 0x80"

text \<open>The constructor, with the initial values of the file-scope variables.\<close>

definition ht1635_new :: ht1635 where
  "ht1635_new =
     \<lparr>device_i2c_addr = HT1635_I2C_ADDRESS, memory_pointer = 0,
      bitmap_buffer = replicate HT_RAM_LAST_ADDRESS 0, tuner_view_mode = piano_view,
      s_prev_col = - 1, s_prev_note_idx = 0xFF, s_prev_alt = 99, s_prev_octave = 99,
      wire = []\<rparr>"

definition emit :: "wire_ev list \<Rightarrow> ht1635 \<Rightarrow> ht1635" where
  "emit evs s = s\<lparr>wire := wire s @ evs\<rparr>"

subsection \<open>Bus primitives\<close>

text \<open>\<open>write_byte\<close>: one byte at a byte index, as a transaction of its own.\<close>

definition write_byte_wire :: "u8 \<Rightarrow> u8 \<Rightarrow> u8 \<Rightarrow> wire_ev list" where
  "write_byte_wire addr ramByteIndex v =
     [BeginTransmission addr, WireWrite CMD_DISPLAY_DATA_INPUT_COMMAND,
      WireWrite (ramByteIndex * 2), WireWrite v, EndTransmission, Delay 1]"

definition write_byte :: "u8 \<Rightarrow> u8 \<Rightarrow> ht1635 \<Rightarrow> ht1635" where
  "write_byte ramByteIndex v s =
     (let s = s\<lparr>memory_pointer := ramByteIndex\<rparr>;
          s = emit (write_byte_wire (device_i2c_addr s) (memory_pointer s) v) s
      in s\<lparr>memory_pointer := memory_pointer s + 2\<rparr>)"

text \<open>\<open>ParamTx\<close>: eight copies of a byte from a RAM address; the result is the
  memory pointer it leaves.\<close>

definition ParamTx :: "u8 \<Rightarrow> u8 \<Rightarrow> ht1635 \<Rightarrow> u8 \<times> ht1635" where
  "ParamTx val rown s =
     (let s = s\<lparr>memory_pointer := rown\<rparr>;
          s = emit ([BeginTransmission (device_i2c_addr s),
                     WireWrite CMD_DISPLAY_DATA_INPUT_COMMAND, WireWrite rown]
                    @ replicate 8 (WireWrite val)
                    @ [EndTransmission, Delay 1]) s;
          s = s\<lparr>memory_pointer := memory_pointer s + 16\<rparr>
      in (memory_pointer s, s))"

definition clear_display :: "ht1635 \<Rightarrow> ht1635" where
  "clear_display s =
     (let s = s\<lparr>bitmap_buffer := replicate HT_RAM_LAST_ADDRESS 0\<rparr>;
          (row, s) = ParamTx 0 0 s;
          (row, s) = ParamTx 0 row s;
          (row, s) = ParamTx 0 row s;
          (row, s) = ParamTx 0 row s;
          (row, s) = ParamTx 0 row s
      in s\<lparr>memory_pointer := 0\<rparr>)"

text \<open>\<open>i2c_sendout_bitmap\<close>: the buffer from byte \<open>i\<close> on, in transactions of at most
  30 bytes. \<open>ram_addr\<close> advances by two per byte.\<close>

function i2c_sendout_loop :: "nat \<Rightarrow> u8 \<Rightarrow> ht1635 \<Rightarrow> ht1635" where
  "i2c_sendout_loop i ram_addr s =
     (if i < HT_RAM_LAST_ADDRESS then
        (let bytes_left = HT_RAM_LAST_ADDRESS - i;
             bytes_to_send = (if 30 < bytes_left then 30 else bytes_left);
             s = emit ([BeginTransmission (device_i2c_addr s),
                        WireWrite CMD_DISPLAY_DATA_INPUT_COMMAND, WireWrite ram_addr]
                       @ map (\<lambda>j. WireWrite (bitmap_buffer s ! (i + j))) [0..<bytes_to_send]
                       @ [EndTransmission, Delay 1]) s
         in i2c_sendout_loop (i + bytes_to_send) (ram_addr + 2 * of_nat bytes_to_send) s)
      else s)"
  by pat_completeness auto
termination
  by (relation "measure (\<lambda>(i, _, _). HT_RAM_LAST_ADDRESS - i)")
     (auto simp: HT_RAM_LAST_ADDRESS_def)

declare i2c_sendout_loop.simps [simp del]

definition i2c_sendout_bitmap :: "nat \<Rightarrow> ht1635 \<Rightarrow> ht1635" where
  "i2c_sendout_bitmap start_byte_index s =
     i2c_sendout_loop start_byte_index (of_nat start_byte_index * 2) s"

text \<open>
  \<open>print_string5\<close>. The loop runs while \<open>str[pos] > 0\<close> on a signed \<open>char\<close>; the
  list ends where the terminating NUL stands.
\<close>

fun print_string5_loop :: "rom \<Rightarrow> nat \<Rightarrow> string \<Rightarrow> ht1635 \<Rightarrow> ht1635" where
  "print_string5_loop r pos [] s = s"
| "print_string5_loop r pos (c # cs) s =
     (if sint (of_char c :: 8 word) \<le> 0 then s
      else
        (let s = (if pos = 3 then
                    emit [EndTransmission, Delay 1, BeginTransmission (device_i2c_addr s),
                          WireWrite CMD_DISPLAY_DATA_INPUT_COMMAND,
                          WireWrite (memory_pointer s)] s
                  else s);
             s = emit (map (\<lambda>i. WireWrite (Font_6x8 r (of_char c - 0x20) i)) [0..<8]) s;
             s = s\<lparr>memory_pointer := memory_pointer s + 16\<rparr>
         in print_string5_loop r (pos + 1) cs s))"

definition print_string5 :: "rom \<Rightarrow> string \<Rightarrow> ht1635 \<Rightarrow> ht1635" where
  "print_string5 r str s =
     (let s = s\<lparr>memory_pointer := 0\<rparr>;
          s = emit [BeginTransmission (device_i2c_addr s),
                    WireWrite CMD_DISPLAY_DATA_INPUT_COMMAND, WireWrite (memory_pointer s)] s;
          s = print_string5_loop r 0 str s
      in emit [EndTransmission, Delay 1] s)"

subsection \<open>The keyboard view\<close>

definition kCol2NoteIdx :: "int list" where
  "kCol2NoteIdx =
     [6, 0, 0, 0,  0, 1, 1, 1,  1, 2, 2, 2,  2, 3, 3, 3,
      3, 4, 4, 4,  4, 5, 5, 5,  5, 6, 6, 6]"

definition kCol2Alter :: "int list" where
  "kCol2Alter =
     [1, - 1, 0, 1,  1, - 1, 0, 1,  1, - 1, 0, 1,  1, - 1, 0, 1,
      1, - 1, 0, 1,  1, - 1, 0, 1,  1, - 1, 0, 1]"

text \<open>\<open>col_to_buf_row6\<close>: the buffer index and the bit mask of a column of row 6.\<close>

definition col_to_buf_row6 :: "nat \<Rightarrow> nat \<times> u8" where
  "col_to_buf_row6 col =
     (let byte_idx = col div 8;
          bit_idx = 7 - col mod 8
      in (byte_idx * 8 + 6, push_bit bit_idx 1))"

text \<open>\<open>display_keyboard\<close>: the keyboard bitmap is copied over the start of the buffer
  and the whole buffer is sent; the four variables of the keyboard view are reset.\<close>

definition display_keyboard :: "rom \<Rightarrow> ht1635 \<Rightarrow> ht1635" where
  "display_keyboard r s =
     (let s = s\<lparr>bitmap_buffer :=
                  font_keyboard r @ drop (length (font_keyboard r)) (bitmap_buffer s)\<rparr>;
          s = i2c_sendout_bitmap 0 s
      in s\<lparr>s_prev_col := - 1, s_prev_note_idx := 0xFF, s_prev_alt := 99,
            s_prev_octave := 99\<rparr>)"

definition update_display :: "rom \<Rightarrow> ht1635 \<Rightarrow> ht1635" where
  "update_display r s =
     (let s = clear_display s
      in if tuner_view_mode s = piano_view then display_keyboard r s
         else clear_display s)"

definition set_tuner_view_mode :: "rom \<Rightarrow> tuner_view_mode_t \<Rightarrow> ht1635 \<Rightarrow> tuner_view_mode_t \<times> ht1635" where
  "set_tuner_view_mode r mode s =
     (let s = s\<lparr>tuner_view_mode := mode\<rparr>;
          s = update_display r s
      in (tuner_view_mode s, s))"

definition note_pixel_center :: "nat list" where
  "note_pixel_center = [2, 4, 6, 8, 10, 14, 16, 18, 20, 22, 24, 26, 30]"

text \<open>\<open>A2C4\<close> is the float literal \<open>0.5946035575013605f\<close> (the comment says
  "2^(-9/12)"): the float nearest to that decimal, \<open>623487 / 2^20\<close>, a little below
  \<open>2^(-9/12)\<close>.\<close>

definition A2C4 :: real where
  "A2C4 = 623487 / 1048576"

text \<open>Lines 262-263: the position in semitones above C4,
  \<open>12.0f * (logf(freq / ref_c4) * INV_LN2)\<close> with \<open>ref_c4 = ref_a4 * A2C4\<close>.\<close>

definition semitones_from_c4 :: "(cfloat \<Rightarrow> cfloat) \<Rightarrow> cfloat \<Rightarrow> cfloat \<Rightarrow> cfloat" where
  "semitones_from_c4 lf freq ref_a4 =
     (let ref_c4 = fmul ref_a4 (Fin A2C4)
      in fmul (Fin 12) (fmul (lf (fdiv freq ref_c4)) (Fin INV_LN2)))"

text \<open>Lines 275-276: the column between the centre of a note and the centre of the
  next one, \<open>note_pixel_center[idx] * (1.0f - frac) + note_pixel_center[idx + 1] * frac\<close>.\<close>

definition interpolate_column :: "nat \<Rightarrow> cfloat \<Rightarrow> cfloat" where
  "interpolate_column idx fr =
     fadd (fmul (Fin (real (note_pixel_center ! idx))) (fsub (Fin 1) fr))
          (fmul (Fin (real (note_pixel_center ! (idx + 1)))) fr)"

text \<open>Lines 267-280, from the semitone position on: the octave of the lower semitone
  bin, and the cursor column.\<close>

definition column_of_position :: "cfloat \<Rightarrow> int \<times> int" where
  "column_of_position st_c =
     (let base_st = int16_cast (float_to_int (floorf st_c));
          midi_base = int16_cast (60 + base_st);
          octave = int8_cast (c_div midi_base 12 - 1);
          frac = fsub st_c (Fin (real_of_int base_st));
          frac = (if fless frac (Fin 0) then Fin 0 else frac);
          idx = nat (uint8_cast (c_mod (c_mod base_st 12 + 12) 12));
          col_f = interpolate_column idx frac;
          col = int16_cast (float_to_int (fadd col_f (Fin (1 / 2))));
          col = constrain col 0 27
      in (col, octave))"

text \<open>Lines 262-280: the octave and the cursor column of a frequency.\<close>

definition keyboard_position :: "(cfloat \<Rightarrow> cfloat) \<Rightarrow> real \<Rightarrow> real \<Rightarrow> int \<times> int" where
  "keyboard_position lf freq ref_a4 =
     column_of_position (semitones_from_c4 lf (Fin freq) (Fin ref_a4))"

text \<open>
  The exact position of a frequency in semitones above C4, C4 being the reference times
  \<open>A2C4\<close>: the number that \<open>st_c\<close> approximates.
\<close>

definition semitone_position :: "real \<Rightarrow> real \<Rightarrow> real" where
  "semitone_position ref_a4 freq = 12 * log 2 (freq / (ref_a4 * A2C4))"

text \<open>The octave \<open>n\<close> of the keyboard for a reference pitch: the frequencies from the C
  that lies \<open>n\<close> octaves above C4 up to, and excluding, the next C.\<close>

definition in_octave :: "real \<Rightarrow> int \<Rightarrow> real \<Rightarrow> bool" where
  "in_octave ref_a4 n freq =
     (12 * real_of_int n \<le> semitone_position ref_a4 freq \<and>
      semitone_position ref_a4 freq < 12 * real_of_int n + 12)"

text \<open>The frequencies of that octave that are at least one cent (a hundredth of a
  semitone) away from both of its ends.\<close>

definition inside_octave :: "real \<Rightarrow> int \<Rightarrow> real \<Rightarrow> bool" where
  "inside_octave ref_a4 n freq =
     (12 * real_of_int n + 1 / 100 \<le> semitone_position ref_a4 freq \<and>
      semitone_position ref_a4 freq \<le> 12 * real_of_int n + 12 - 1 / 100)"

text \<open>A sweep in which every frequency is at least 0.1 % above the one before.\<close>

definition rising :: "real list \<Rightarrow> bool" where
  "rising fs = sorted_wrt (\<lambda>x y. x * (1001 / 1000) \<le> y) fs"

text \<open>The cursor columns of a sequence of frequencies.\<close>

definition sweep_columns :: "(cfloat \<Rightarrow> cfloat) \<Rightarrow> cfloat \<Rightarrow> real list \<Rightarrow> int list" where
  "sweep_columns lf ref_a4 fs =
     map (\<lambda>f. fst (keyboard_position lf f (concert_a_or_default ref_a4))) fs"

text \<open>Lines 282-302: the cursor pixel. Nothing is written when the column is the
  previous one; otherwise the previous pixel, if there is one, and the new pixel are
  toggled in the buffer and their bytes written.\<close>

definition keyboard_cursor :: "int \<Rightarrow> ht1635 \<Rightarrow> ht1635" where
  "keyboard_cursor col s =
     (if col = s_prev_col s then s
      else
        (let s = (if 0 \<le> s_prev_col s \<and> s_prev_col s \<le> 27 then
                    (let (pidx, pmask) = col_to_buf_row6 (nat (s_prev_col s));
                         s = s\<lparr>bitmap_buffer :=
                                  (bitmap_buffer s)[pidx := bitmap_buffer s ! pidx XOR pmask]\<rparr>
                     in write_byte (of_nat pidx) (bitmap_buffer s ! pidx) s)
                  else s);
             (bidx, bmask) = col_to_buf_row6 (nat col);
             s = s\<lparr>bitmap_buffer :=
                      (bitmap_buffer s)[bidx := bitmap_buffer s ! bidx XOR bmask]\<rparr>;
             s = write_byte (of_nat bidx) (bitmap_buffer s ! bidx) s
         in s\<lparr>s_prev_col := int8_cast col\<rparr>))"

text \<open>Lines 323-347: the eight bytes of the label column.\<close>

definition label_byte :: "rom \<Rightarrow> int \<Rightarrow> int \<Rightarrow> int \<Rightarrow> nat \<Rightarrow> u8" where
  "label_byte r note_idx alt octave_disp i =
     (let buff5 = 0;
          buff5 = (if 0 < i \<and> i < 7
                   then push_bit 5 (font_tall6_notes_condensed r (nat note_idx) (i - 1))
                   else buff5);
          buff5 = (if i < 3 \<and> alt \<noteq> 0
                   then buff5 OR font_tall6_alterations r (if alt = - 1 then 0 else 1) i
                   else buff5);
          buff5 = (if 3 < i
                   then buff5 OR font_micro_numbers r (nat octave_disp) (i - 4)
                   else buff5)
      in buff5)"

definition label_wire :: "rom \<Rightarrow> u8 \<Rightarrow> int \<Rightarrow> int \<Rightarrow> int \<Rightarrow> wire_ev list" where
  "label_wire r addr note_idx alt octave_disp =
     [BeginTransmission addr, WireWrite CMD_DISPLAY_DATA_INPUT_COMMAND, WireWrite 0x40]
     @ map (\<lambda>i. WireWrite (label_byte r note_idx alt octave_disp i)) [0..<8]
     @ [EndTransmission]"

text \<open>Lines 304-353: the label, rewritten only when its content changes.\<close>

definition keyboard_label :: "rom \<Rightarrow> int \<Rightarrow> int \<Rightarrow> ht1635 \<Rightarrow> ht1635" where
  "keyboard_label r col octave s =
     (let note_idx = kCol2NoteIdx ! nat col;
          alt_i8 = kCol2Alter ! nat col;
          octave_disp = int8_cast (constrain octave 0 9);
          label_changed = (note_idx \<noteq> s_prev_note_idx s \<or> alt_i8 \<noteq> s_prev_alt s
                           \<or> octave_disp \<noteq> s_prev_octave s)
      in if label_changed then
           (let s = emit (label_wire r (device_i2c_addr s) note_idx alt_i8 octave_disp) s
            in s\<lparr>s_prev_note_idx := note_idx, s_prev_alt := alt_i8,
                  s_prev_octave := octave_disp\<rparr>)
         else s)"

text \<open>\<open>display_keyboard_drift\<close>. The first case is the guard
  \<open>!isfinite(freq) || freq <= 0.0f\<close>; the reference is replaced by 440 Hz under the
  same test as in \<open>frequency_to_note\<close>.\<close>

definition display_keyboard_drift ::
  "rom \<Rightarrow> (cfloat \<Rightarrow> cfloat) \<Rightarrow> cfloat \<Rightarrow> cfloat \<Rightarrow> ht1635 \<Rightarrow> ht1635" where
  "display_keyboard_drift r lf freq ref_a4 s =
     (case freq of
        Fin f \<Rightarrow>
          if f \<le> 0 then s
          else
            (let (col, octave) = keyboard_position lf f (concert_a_or_default ref_a4);
                 s = keyboard_cursor col s
             in keyboard_label r col octave s)
      | _ \<Rightarrow> s)"

subsection \<open>The numeric and the bar-graph view\<close>

text \<open>The C library's \<open>roundf\<close>: to the nearest integer, halfway cases away from
  zero; the result is a float.\<close>

fun roundf :: "cfloat \<Rightarrow> cfloat" where
  "roundf (Fin x) = Fin (real_of_int (if 0 \<le> x then \<lfloor>x + 1 / 2\<rfloor> else \<lceil>x - 1 / 2\<rceil>))"
| "roundf x = x"

definition print_drift :: "rom \<Rightarrow> cfloat \<Rightarrow> ht1635 \<Rightarrow> ht1635" where
  "print_drift r drift s =
     (let s =
        (if tuner_view_mode s = numeric then
           (let s = emit [BeginTransmission (device_i2c_addr s),
                          WireWrite CMD_DISPLAY_DATA_INPUT_COMMAND,
                          WireWrite (memory_pointer s)] s;
                idx = (if fless drift (Fin 0) then 11 else 10);
                drift = (if fless drift (Fin 0) then fneg drift else drift);
                s = emit (map (\<lambda>y. WireWrite (font_small_numbers r idx y)) [0..<5]) s;
                s = emit [WireWrite 0, WireWrite 0, WireWrite 0] s;
                cents = int8_cast (float_to_int (roundf drift));
                tens = nat (uint8_cast (c_mod (c_div cents 10) 10));
                units = nat (uint8_cast (c_mod cents 10));
                s = emit (map (\<lambda>y. WireWrite (push_bit 4 (font_small_numbers r tens y)
                                                 OR font_small_numbers r units y)) [0..<5]) s
            in emit [WireWrite 0, WireWrite 0, WireWrite 0] s)
         else if tuner_view_mode s = bar_graph then
           (let s = emit [BeginTransmission (device_i2c_addr s),
                          WireWrite CMD_DISPLAY_DATA_INPUT_COMMAND,
                          WireWrite (memory_pointer s)] s;
                drift_int = int8_cast (float_to_int (fdiv (roundf drift) (Fin 10)));
                center = 5;
                bar_mask = (push_bit center 1 :: u16);
                bar_mask =
                  (if 0 < drift_int
                   then bar_mask OR push_bit (center + 1) (push_bit (nat drift_int) 1 - 1)
                   else bar_mask OR push_bit (center - nat (- drift_int))
                                             (push_bit (nat (- drift_int)) 1 - 1));
                hi = (ucast (drop_bit 8 bar_mask AND 0xff) :: u8);
                lo = (ucast (bar_mask AND 0xff) :: u8)
            in emit [WireWrite 0, WireWrite 0, WireWrite 0, WireWrite hi, WireWrite hi,
                     WireWrite 0, WireWrite 0, WireWrite 0,
                     WireWrite 0x20, WireWrite 0x20, WireWrite 0x20, WireWrite lo,
                     WireWrite lo, WireWrite 0x20, WireWrite 0x20, WireWrite 0x20] s)
         else s)
      in emit [EndTransmission, Delay 1] s)"

subsection \<open>The entry point\<close>

definition render_pitch_and_drift ::
  "rom \<Rightarrow> (cfloat \<Rightarrow> cfloat) \<Rightarrow> cfloat \<Rightarrow> cfloat \<Rightarrow> cfloat \<Rightarrow> ht1635 \<Rightarrow> ht1635" where
  "render_pitch_and_drift r lf freq concert_ref_a min_valid_freq s =
     (if fless freq min_valid_freq then print_string5 r ''-    '' s
      else if tuner_view_mode s = piano_view then display_keyboard_drift r lf freq concert_ref_a s
      else
        (let (pitch_name, cents, midi) = frequency_to_note lf freq concert_ref_a;
             s = print_string5 r pitch_name s
         in print_drift r cents s))"

subsection \<open>Bus traces\<close>

text \<open>The eight rows of a glyph of \<open>Font_6x8\<close>, as written by \<open>print_string5\<close>.\<close>

definition glyph_wire :: "rom \<Rightarrow> int \<Rightarrow> wire_ev list" where
  "glyph_wire r c = map (\<lambda>i. WireWrite (Font_6x8 r c i)) [0..<8]"

text \<open>The placeholder \<open>"-    "\<close> on the bus: a minus sign (glyph \<open>0x2D - 0x20\<close>) and
  two spaces (glyph 0) from address 0, then two spaces from address 48.\<close>

definition placeholder_wire :: "rom \<Rightarrow> u8 \<Rightarrow> wire_ev list" where
  "placeholder_wire r addr =
     [BeginTransmission addr, WireWrite CMD_DISPLAY_DATA_INPUT_COMMAND, WireWrite 0]
     @ glyph_wire r 13 @ glyph_wire r 0 @ glyph_wire r 0
     @ [EndTransmission, Delay 1,
        BeginTransmission addr, WireWrite CMD_DISPLAY_DATA_INPUT_COMMAND, WireWrite 48]
     @ glyph_wire r 0 @ glyph_wire r 0
     @ [EndTransmission, Delay 1]"

text \<open>Eight zero bytes to each of the five modules, as \<open>clear_display\<close> sends them.\<close>

definition clear_wire :: "u8 \<Rightarrow> wire_ev list" where
  "clear_wire addr =
     concat (map (\<lambda>m. [BeginTransmission addr, WireWrite CMD_DISPLAY_DATA_INPUT_COMMAND,
                         WireWrite (16 * of_nat m)]
                        @ replicate 8 (WireWrite 0) @ [EndTransmission, Delay 1]) [0..<5])"

text \<open>The 40 bytes of a buffer, 30 from RAM address 0 and 10 from RAM address 60.\<close>

definition bitmap_wire :: "u8 \<Rightarrow> u8 list \<Rightarrow> wire_ev list" where
  "bitmap_wire addr buf =
     [BeginTransmission addr, WireWrite CMD_DISPLAY_DATA_INPUT_COMMAND, WireWrite 0]
     @ map (\<lambda>j. WireWrite (buf ! j)) [0..<30]
     @ [EndTransmission, Delay 1,
        BeginTransmission addr, WireWrite CMD_DISPLAY_DATA_INPUT_COMMAND, WireWrite 60]
     @ map (\<lambda>j. WireWrite (buf ! (30 + j))) [0..<10]
     @ [EndTransmission, Delay 1]"

section \<open>Concrete states of the acquisition engine\<close>

text \<open>A state with a stored estimate of 440 Hz and a pending capture 66667 ticks
  after the baseline, one tick more than the band allows.\<close>

definition glitch_state :: freq_state where
  "glitch_state = \<lparr>s_ovf = 1, s_icr32 = 67667, s_newCap = True, s_prevIcr32 = 1000,
      s_freq_ema = Fin 440, s_freq_raw = Fin 440, s_lastOkMs = 0\<rparr>"

text \<open>A run after initialisation at 0 ms: an edge at tick 1000 primes the baseline, an
  edge 4545 ticks later gives the first period (about 440 Hz).\<close>

definition tracking_state :: freq_state where
  "tracking_state =
     snd (freq_read 13 13 (isr_capt 5545 False
       (snd (freq_read 10 10 (isr_capt 1000 False (freq_init 0))))))"

text \<open>A run in which the 32-bit timestamp wraps: after 65535 timer overflows, edges at
  \<open>2^32 - 9090\<close>, \<open>2^32 - 4545\<close> and, one overflow later, at timestamp 0 are read
  (4545 ticks apart, about 440 Hz, some 36 minutes after initialisation).\<close>

definition wrapped_state :: freq_state where
  "wrapped_state =
     (let s = (isr_ovf ^^ 65535) (freq_init 0);
          s = snd (freq_read 2147480 2147480 (isr_capt 56446 False s));
          s = snd (freq_read 2147482 2147482 (isr_capt 60991 False s))
      in snd (freq_read 2147484 2147484 (isr_capt 0 False (isr_ovf s))))"

text \<open>The same run when the signal then stops and the next edge comes a second later
  (30 overflows and 33920 ticks, timestamp 2000000).\<close>

definition silent_state :: freq_state where
  "silent_state = isr_capt 33920 False ((isr_ovf ^^ 30) wrapped_state)"

section \<open>Concrete states of the renderer\<close>

text \<open>A ROM in which every byte of a glyph is the glyph's index, and the keyboard
  bitmap is 40 bytes \<open>0x81\<close>; it makes the glyphs visible in a bus trace.\<close>

definition index_rom :: rom where
  "index_rom =
     \<lparr>Font_6x8 = (\<lambda>c i. word_of_int c), font_small_numbers = (\<lambda>n i. of_nat n),
      font_tall6_notes_condensed = (\<lambda>n i. of_nat n),
      font_tall6_alterations = (\<lambda>n i. of_nat n),
      font_micro_numbers = (\<lambda>n i. of_nat n), font_keyboard = replicate 40 0x81\<rparr>"

text \<open>The renderer after construction, in the numeric view.\<close>

definition numeric_state :: ht1635 where
  "numeric_state = ht1635_new\<lparr>tuner_view_mode := numeric\<rparr>"

text \<open>The keyboard view with the cursor on column 5.\<close>

definition cursor5_state :: ht1635 where
  "cursor5_state = keyboard_cursor 5 ht1635_new"

text \<open>The keyboard view after 440 Hz has been drawn on a fresh display.\<close>

definition a4_drawn_state :: ht1635 where
  "a4_drawn_state = display_keyboard_drift index_rom logf_cr (Fin 440) (Fin 440) ht1635_new"

section \<open>Properties of the single-precision arithmetic\<close>

lemma rne_err: "\<bar>of_int (rne x) - x\<bar> \<le> 1 / 2"
  unfolding rne_def Let_def by (auto; linarith)

lemma rne_eq: "of_int k - 1 / 2 < x \<Longrightarrow> x < of_int k + 1 / 2 \<Longrightarrow> rne x = k"
  unfolding rne_def Let_def by (auto; linarith)

lemma rne_of_int: "rne (of_int k) = k"
  by (rule rne_eq) simp_all

lemma floor_log2_eq:
  assumes "2 powi e \<le> \<bar>x\<bar>" "\<bar>x\<bar> < 2 powi (e + 1)"
  shows "\<lfloor>log 2 \<bar>x\<bar>\<rfloor> = e"
proof -
  have pos: "0 < \<bar>x\<bar>" using assms(1) by (smt (verit) zero_less_power_int)
  have "(2::real) powr real_of_int e = 2 powi e" "(2::real) powr (real_of_int e + 1) = 2 powi (e + 1)"
    using powr_real_of_int' [of 2 e] powr_real_of_int' [of 2 "e + 1"] by simp_all
  then show ?thesis
    using assms pos by (simp add: floor_log_eq_powr_iff)
qed

lemma float_exponent_eq:
  assumes "2 powi e \<le> \<bar>x\<bar>" "\<bar>x\<bar> < 2 powi (e + 1)" "- 126 \<le> e"
  shows "float_exponent x = e"
  using floor_log2_eq [OF assms(1,2)] assms(3) by (simp add: float_exponent_def)

lemma rnd_binade:
  assumes "2 powi e \<le> \<bar>x\<bar>" "\<bar>x\<bar> < 2 powi (e + 1)" "- 126 \<le> e"
  shows "rnd x = (let y = of_int (rne (x / 2 powi (e - 23))) * 2 powi (e - 23)
                  in if FLT_MAX < \<bar>y\<bar> then (if 0 < x then PInf else NInf) else Fin y)"
proof -
  have "x \<noteq> 0" using assms(1) by (smt (verit) zero_less_power_int)
  then show ?thesis
    by (simp add: rnd_def float_exponent_eq [OF assms] Let_def)
qed

lemma rnd_not_nan [simp]: "rnd x \<noteq> NaN"
  by (simp add: rnd_def Let_def)

lemma pow2_floor_log2_le:
  assumes "x \<noteq> 0"
  shows "2 powi \<lfloor>log 2 \<bar>x\<bar>\<rfloor> \<le> \<bar>x\<bar>"
proof -
  have pos: "0 < \<bar>x\<bar>" using assms by simp
  have "(2::real) powr real_of_int \<lfloor>log 2 \<bar>x\<bar>\<rfloor> \<le> \<bar>x\<bar>"
    using floor_log_eq_powr_iff [OF pos, of 2 "\<lfloor>log 2 \<bar>x\<bar>\<rfloor>"] by simp
  then show ?thesis
    using powr_real_of_int' [of 2 "\<lfloor>log 2 \<bar>x\<bar>\<rfloor>"] by simp
qed

lemma rnd_err:
  assumes "\<bar>x\<bar> \<le> 2 ^ 127"
  shows "\<exists>y. rnd x = Fin y \<and> \<bar>y - x\<bar> \<le> \<bar>x\<bar> / 2 ^ 24 + 1 / 2 ^ 150"
proof (cases "x = 0")
  case True
  then show ?thesis by (simp add: rnd_def)
next
  case False
  define e where "e = float_exponent x"
  define u :: real where "u = 2 powi (e - 23)"
  define y where "y = of_int (rne (x / u)) * u"
  have upos: "0 < u" by (simp add: u_def)
  have "y - x = (of_int (rne (x / u)) - x / u) * u"
    using upos by (simp add: y_def left_diff_distrib)
  then have "\<bar>y - x\<bar> = \<bar>of_int (rne (x / u)) - x / u\<bar> * u"
    using upos by (simp add: abs_mult)
  also have "\<dots> \<le> 1 / 2 * u"
    using rne_err [of "x / u"] upos by (intro mult_right_mono) simp_all
  finally have d: "\<bar>y - x\<bar> \<le> u / 2" by simp
  have uh: "u / 2 \<le> \<bar>x\<bar> / 2 ^ 24 + 1 / 2 ^ 150"
  proof (cases "- 126 \<le> \<lfloor>log 2 \<bar>x\<bar>\<rfloor>")
    case True
    then have "e = \<lfloor>log 2 \<bar>x\<bar>\<rfloor>" by (simp add: e_def float_exponent_def)
    then have "2 powi e \<le> \<bar>x\<bar>" using pow2_floor_log2_le [OF False] by simp
    moreover have "u / 2 = 2 powi e / 2 ^ 24"
      by (simp add: u_def power_int_diff)
    ultimately show ?thesis by (simp add: divide_right_mono)
  next
    case False
    then have "e = - 126" by (simp add: e_def float_exponent_def)
    then have "u / 2 = 1 / 2 ^ 150" by (simp add: u_def power_int_minus divide_simps)
    then show ?thesis by simp
  qed
  have "\<bar>y\<bar> \<le> \<bar>x\<bar> + \<bar>y - x\<bar>" by simp
  also have "\<dots> \<le> \<bar>x\<bar> + (\<bar>x\<bar> / 2 ^ 24 + 1 / 2 ^ 150)" using d uh by simp
  also have "\<dots> \<le> 2 ^ 127 + (2 ^ 127 / 2 ^ 24 + 1 / 2 ^ 150)"
    using assms by (intro add_mono divide_right_mono) simp_all
  also have "\<dots> \<le> FLT_MAX" by (simp add: FLT_MAX_def)
  finally have fin: "\<not> FLT_MAX < \<bar>y\<bar>" by simp
  have "rnd x = Fin y"
    using False fin by (simp add: rnd_def Let_def y_def u_def e_def)
  then show ?thesis using d uh by auto
qed

lemma rnd_between:
  assumes "a < x" "x < b" "2 powi e \<le> a" "b \<le> 2 powi (e + 1)" "- 126 \<le> e"
    and "of_int k - 1 / 2 \<le> a / 2 powi (e - 23)" "b / 2 powi (e - 23) \<le> of_int k + 1 / 2"
    and "\<bar>of_int k * 2 powi (e - 23)\<bar> \<le> FLT_MAX"
  shows "rnd x = Fin (of_int k * 2 powi (e - 23))"
proof -
  have apos: "0 < a" using assms(3) by (smt (verit) zero_less_power_int)
  have xpos: "0 < x" using apos assms(1) by simp
  have b1: "2 powi e \<le> \<bar>x\<bar>" "\<bar>x\<bar> < 2 powi (e + 1)"
    using assms(1-4) xpos by simp_all
  have upos: "(0::real) < 2 powi (e - 23)" by simp
  have "a / 2 powi (e - 23) < x / 2 powi (e - 23)" "x / 2 powi (e - 23) < b / 2 powi (e - 23)"
    using assms(1,2) upos by (simp_all add: divide_strict_right_mono)
  then have "rne (x / 2 powi (e - 23)) = k"
    using assms(6,7) by (intro rne_eq) linarith+
  then show ?thesis
    using assms(8) xpos by (simp add: rnd_binade [OF b1 assms(5)] Let_def)
qed

lemma exp_taylor:
  fixes x :: real
  assumes "0 \<le> x" "x \<le> 1"
  shows "(\<Sum>m<n. x ^ m / fact m) \<le> exp x \<and> exp x \<le> (\<Sum>m<n. x ^ m / fact m) + 3 * (x ^ n / fact n)"
proof -
  obtain t where t: "\<bar>t\<bar> \<le> \<bar>x\<bar>" "exp x = (\<Sum>m<n. x ^ m / fact m) + exp t / fact n * x ^ n"
    using Maclaurin_exp_le [of x n] by blast
  have "exp t \<le> exp 1" using t(1) assms by simp
  then have e3: "exp t \<le> 3" using exp_le by linarith
  have xn: "0 \<le> x ^ n / fact n" using assms(1) by simp
  have eq: "exp t / fact n * x ^ n = exp t * (x ^ n / fact n)" by simp
  have "0 \<le> exp t * (x ^ n / fact n)" using xn by (intro mult_nonneg_nonneg) simp_all
  moreover have "exp t * (x ^ n / fact n) \<le> 3 * (x ^ n / fact n)"
    using e3 xn by (intro mult_right_mono) simp_all
  ultimately show ?thesis unfolding t(2) eq by simp
qed

lemma taylor16:
  fixes x :: real
  shows "(\<Sum>m<16. x ^ m / fact m) = 1 + x + x ^ 2 / 2 + x ^ 3 / 6 + x ^ 4 / 24 + x ^ 5 / 120 + x ^ 6 / 720 + x ^ 7 / 5040 + x ^ 8 / 40320 + x ^ 9 / 362880 + x ^ 10 / 3628800 + x ^ 11 / 39916800 + x ^ 12 / 479001600 + x ^ 13 / 6227020800 + x ^ 14 / 87178291200 + x ^ 15 / 1307674368000"
  by (simp add: eval_nat_numeral sum.lessThan_Suc)

lemma fact16: "fact 16 = (20922789888000 :: real)"
  by (simp add: eval_nat_numeral)

lemma ln_lower:
  fixes a q :: real
  assumes "0 \<le> a" "a \<le> 1"
    and "1 + a + a ^ 2 / 2 + a ^ 3 / 6 + a ^ 4 / 24 + a ^ 5 / 120 + a ^ 6 / 720 + a ^ 7 / 5040 + a ^ 8 / 40320 + a ^ 9 / 362880 + a ^ 10 / 3628800 + a ^ 11 / 39916800 + a ^ 12 / 479001600 + a ^ 13 / 6227020800 + a ^ 14 / 87178291200 + a ^ 15 / 1307674368000 + 3 * (a ^ 16 / 20922789888000) < q"
  shows "a < ln q"
proof -
  have "exp a < q"
    using exp_taylor [OF assms(1,2), of 16] assms(3) unfolding taylor16 fact16 by linarith
  moreover have "0 < q" using calculation exp_gt_zero [of a] by linarith
  ultimately show ?thesis using ln_less_cancel_iff [of "exp a" q] by simp
qed

lemma ln_upper:
  fixes b q :: real
  assumes "0 \<le> b" "b \<le> 1" "0 < q"
    and "q < 1 + b + b ^ 2 / 2 + b ^ 3 / 6 + b ^ 4 / 24 + b ^ 5 / 120 + b ^ 6 / 720 + b ^ 7 / 5040 + b ^ 8 / 40320 + b ^ 9 / 362880 + b ^ 10 / 3628800 + b ^ 11 / 39916800 + b ^ 12 / 479001600 + b ^ 13 / 6227020800 + b ^ 14 / 87178291200 + b ^ 15 / 1307674368000"
  shows "ln q < b"
proof -
  have "q < exp b"
    using exp_taylor [OF assms(1,2), of 16] assms(4) unfolding taylor16 by linarith
  then show ?thesis using assms(3) ln_less_cancel_iff [of q "exp b"] by simp
qed

lemma ln2_lo: "(34657359 / 50000000 :: real) < ln 2"
  by (rule ln_lower) (simp_all add: power_divide)

lemma ln2_hi: "ln 2 < (69314719 / 100000000 :: real)"
  by (rule ln_upper) (simp_all add: power_divide)

lemma rnd_zero [simp]: "rnd 0 = Fin 0"
  by (simp add: rnd_def)

text \<open>The three float literals of the program are the floats nearest to their
  decimals.\<close>

lemma INV_LN2_literal: "rnd (14426950408889634 / 10000000000000000) = Fin INV_LN2"
  by (subst rnd_binade [of 0]) (simp_all add: rne_def Let_def FLT_MAX_def INV_LN2_def)

lemma A2C4_literal: "rnd (5946035575013605 / 10000000000000000) = Fin A2C4"
  by (subst rnd_binade [of "- 1"]) (simp_all add: rne_def Let_def FLT_MAX_def A2C4_def)

lemma CENTS_LIMIT_literal: "rnd (4999 / 100) = Fin CENTS_LIMIT"
  by (subst rnd_binade [of 5]) (simp_all add: rne_def Let_def FLT_MAX_def CENTS_LIMIT_def)

text \<open>The correctly rounded logarithm has both properties asked of a \<open>logf\<close>.\<close>

lemma logf_cr_defined: "logf_defined logf_cr"
  unfolding logf_defined_def
proof (intro allI impI)
  fix x assume "fle (Fin 0) x"
  then show "logf_cr x \<noteq> NaN" by (cases x) simp_all
qed

lemma ln_float_range:
  fixes x :: real
  assumes "1 / 2 ^ 149 \<le> x" "x \<le> 2 ^ 128"
  shows "\<bar>ln x\<bar> \<le> 105"
proof -
  have pos: "0 < x" using assms(1) by (smt (verit) zero_less_divide_1_iff zero_less_numeral zero_less_power)
  have l2: "ln (2::real) \<le> 7 / 10" using ln2_hi by simp
  have l0: "0 < ln (2::real)" by simp
  have "ln x \<le> ln (2 ^ 128)" using assms(2) pos by (subst ln_le_cancel_iff) simp_all
  also have "\<dots> = 128 * ln 2" using ln_realpow [of 2 128] by simp
  finally have up: "ln x \<le> 105" using l2 by linarith
  have "ln (1 / 2 ^ 149) \<le> ln x" using assms(1) pos by (subst ln_le_cancel_iff) simp_all
  moreover have "ln (1 / 2 ^ 149 :: real) = - (149 * ln 2)"
    using ln_realpow [of 2 149] by (simp add: ln_div)
  ultimately have "- 105 \<le> ln x" using l2 by linarith
  then show ?thesis using up by simp
qed

lemma logf_cr_accurate: "logf_accurate logf_cr"
  unfolding logf_accurate_def
proof (intro allI impI)
  fix x :: real assume a: "1 / 2 ^ 149 \<le> x \<and> x \<le> 2 ^ 128"
  then have pos: "0 < x" by (smt (verit) zero_less_divide_1_iff zero_less_numeral zero_less_power)
  have b: "\<bar>ln x\<bar> \<le> 105" using ln_float_range a by blast
  then have "\<bar>ln x\<bar> \<le> 2 ^ 127" by simp
  then obtain y where y: "rnd (ln x) = Fin y" "\<bar>y - ln x\<bar> \<le> \<bar>ln x\<bar> / 2 ^ 24 + 1 / 2 ^ 150"
    using rnd_err by blast
  have "\<bar>ln x\<bar> / 2 ^ 24 + 1 / 2 ^ 150 \<le> 105 / 2 ^ 24 + 1 / 2 ^ 150"
    using b by (simp add: divide_right_mono)
  also have "\<dots> \<le> 1 / 100000" by simp
  finally have "\<bar>y - ln x\<bar> \<le> 1 / 100000" using y(2) by linarith
  then show "\<exists>l. logf_cr (Fin x) = Fin l \<and> \<bar>l - ln x\<bar> \<le> 1 / 100000"
    using y(1) pos by simp
qed

subsection \<open>Error bounds\<close>

lemma rnd_err_bound:
  assumes "\<bar>x\<bar> \<le> B" "B \<le> 2 ^ 127"
  shows "\<exists>y. rnd x = Fin y \<and> \<bar>y - x\<bar> \<le> B / 2 ^ 24 + 1 / 2 ^ 150"
proof -
  have "\<bar>x\<bar> \<le> 2 ^ 127" using assms by linarith
  then obtain y where y: "rnd x = Fin y" "\<bar>y - x\<bar> \<le> \<bar>x\<bar> / 2 ^ 24 + 1 / 2 ^ 150"
    using rnd_err by blast
  have "\<bar>x\<bar> / 2 ^ 24 \<le> B / 2 ^ 24" using assms(1) by (simp add: divide_right_mono)
  then show ?thesis using y by (intro exI [of _ y]) linarith
qed

lemma ln_near_one:
  fixes d :: real
  assumes "\<bar>d\<bar> \<le> 1 / 2"
  shows "\<bar>ln (1 + d)\<bar> \<le> 2 * \<bar>d\<bar>"
proof (cases "0 \<le> d")
  case True
  have "0 \<le> ln (1 + d)" using True by simp
  moreover have "ln (1 + d) \<le> d" using True ln_add_one_self_le_self by simp
  ultimately show ?thesis using True by simp
next
  case False
  define x where "x = - d"
  have x: "0 \<le> x" "x \<le> 1 / 2" using False assms by (simp_all add: x_def)
  have "- x - 2 * x\<^sup>2 \<le> ln (1 - x)"
    using ln_one_minus_pos_lower_bound [OF x] .
  moreover have "2 * x\<^sup>2 \<le> x"
  proof -
    have "x * (2 * x) \<le> x * 1" using x by (intro mult_left_mono) simp_all
    then show ?thesis by (simp add: power2_eq_square)
  qed
  moreover have "ln (1 - x) \<le> 0" using x by simp
  ultimately have "\<bar>ln (1 - x)\<bar> \<le> 2 * x" by linarith
  then show ?thesis using x by (simp add: x_def)
qed

lemma INV_LN2_err: "\<bar>INV_LN2 - 1 / ln 2\<bar> \<le> 1 / 40000000"
proof -
  define r :: real where "r = 1 / ln 2"
  have a: "(34657359 / 50000000 :: real) < ln 2" by (rule ln2_lo)
  have b: "ln 2 < (69314719 / 100000000 :: real)" by (rule ln2_hi)
  have "1 / ln 2 < 1 / (34657359 / 50000000 :: real)"
    using a by (intro divide_strict_left_mono) simp_all
  then have u: "r < 50000000 / 34657359" by (simp add: r_def)
  have "1 / (69314719 / 100000000 :: real) < 1 / ln 2"
    using b by (intro divide_strict_left_mono) simp_all
  then have l: "100000000 / 69314719 < r" by (simp add: r_def)
  have "\<bar>12102203 / 8388608 - r\<bar> \<le> 1 / 40000000"
    unfolding abs_le_iff using u l by argo
  then show ?thesis by (simp add: INV_LN2_def r_def)
qed


lemma log2_float_range:
  fixes x :: real
  assumes "1 / 2 ^ 126 \<le> x" "x \<le> 2 ^ 127"
  shows "0 < x \<and> \<bar>log 2 x\<bar> \<le> 127 \<and> \<bar>ln x\<bar> \<le> 89"
proof -
  have pos: "0 < x"
    using assms(1) by (smt (verit) zero_less_divide_1_iff zero_less_numeral zero_less_power)
  have "log 2 x \<le> log 2 (2 ^ 127)"
    using assms(2) pos by (subst log_le_cancel_iff) simp_all
  moreover have "log 2 (2 ^ 127 :: real) = 127"
    using log_pow_cancel [of 2 127] by simp
  moreover have "log 2 (1 / 2 ^ 126) \<le> log 2 x"
    using assms(1) pos by (subst log_le_cancel_iff) simp_all
  moreover have "log 2 (1 / 2 ^ 126 :: real) = - 126"
    using log_pow_cancel [of 2 126] by (simp add: log_divide)
  ultimately have l: "\<bar>log 2 x\<bar> \<le> 127" by simp
  have "ln x = log 2 x * ln 2" by (simp add: log_def)
  then have "\<bar>ln x\<bar> = \<bar>log 2 x\<bar> * ln 2" by (simp add: abs_mult)
  also have "\<dots> \<le> 127 * (7 / 10)"
    using l ln2_hi by (intro mult_mono) simp_all
  finally show ?thesis using pos l by simp
qed

text \<open>The rounding error of an operation whose exact result is at most \<open>B\<close> in
  magnitude, for the three sizes that occur.\<close>

lemma rnd_small:
  assumes "\<bar>x\<bar> \<le> 128"
  shows "\<exists>y. rnd x = Fin y \<and> \<bar>y - x\<bar> \<le> 1 / 100000"
proof -
  obtain y where y: "rnd x = Fin y" "\<bar>y - x\<bar> \<le> 128 / 2 ^ 24 + 1 / 2 ^ 150"
    using rnd_err_bound [OF assms] by auto
  have "(128 / 2 ^ 24 + 1 / 2 ^ 150 :: real) \<le> 1 / 100000" by simp
  then show ?thesis using y by (intro exI [of _ y]) linarith
qed

lemma rnd_medium:
  assumes "\<bar>x\<bar> \<le> 2002"
  shows "\<exists>y. rnd x = Fin y \<and> \<bar>y - x\<bar> \<le> 1 / 8000"
proof -
  obtain y where y: "rnd x = Fin y" "\<bar>y - x\<bar> \<le> 2002 / 2 ^ 24 + 1 / 2 ^ 150"
    using rnd_err_bound [OF assms] by auto
  have "(2002 / 2 ^ 24 + 1 / 2 ^ 150 :: real) \<le> 1 / 8000" by simp
  then show ?thesis using y by (intro exI [of _ y]) linarith
qed

lemma INV_LN2_bounds: "0 < INV_LN2 \<and> INV_LN2 \<le> 3 / 2"
  by (simp add: INV_LN2_def)

text \<open>The base-2 logarithm as both functions compute it, \<open>logf(x) * INV_LN2\<close> for a
  quotient \<open>x\<close> rounded to a float: the result is within \<open>5 * 10^-5\<close> of \<open>log2 x\<close>.\<close>

lemma log2_pipeline:
  fixes x :: real
  assumes lf: "logf_accurate lf" and x: "1 / 2 ^ 126 \<le> x" "x \<le> 2 ^ 127"
  shows "\<exists>\<rho>. fmul (lf (rnd x)) (Fin INV_LN2) = Fin \<rho> \<and> \<bar>\<rho> - log 2 x\<bar> \<le> 1 / 20000"
proof -
  have r: "0 < x" "\<bar>log 2 x\<bar> \<le> 127" "\<bar>ln x\<bar> \<le> 89"
    using log2_float_range [OF x] by simp_all
  have "\<bar>x\<bar> \<le> 2 ^ 127" using x(2) r(1) by simp
  then obtain q where q: "rnd x = Fin q" "\<bar>q - x\<bar> \<le> \<bar>x\<bar> / 2 ^ 24 + 1 / 2 ^ 150"
    using rnd_err by blast
  have "1 / 2 ^ 126 / 2 ^ 24 \<le> x / 2 ^ 24"
    using x(1) by (intro divide_right_mono) simp_all
  then have t: "1 / 2 ^ 150 \<le> x / 2 ^ 24" by simp
  have qd: "\<bar>q - x\<bar> \<le> x / 2 ^ 23" using q(2) t r(1) by simp
  define d where "d = (q - x) / x"
  have "\<bar>d\<bar> = \<bar>q - x\<bar> / x" using r(1) by (simp add: d_def)
  also have "\<dots> \<le> x / 2 ^ 23 / x" using qd r(1) by (intro divide_right_mono) simp_all
  finally have d: "\<bar>d\<bar> \<le> 1 / 2 ^ 23" using r(1) by simp
  have qx: "q = x * (1 + d)" using r(1) by (simp add: d_def field_simps)
  have d1: "1 / 2 \<le> 1 + d" "1 + d \<le> 2" using d by (simp_all add: abs_le_iff)
  have "x * (1 / 2) \<le> x * (1 + d)" "x * (1 + d) \<le> x * 2"
    using d1 r(1) by (simp_all add: mult_left_mono)
  then have qb: "x / 2 \<le> q" "q \<le> 2 * x" using qx by simp_all
  have "1 / 2 ^ 126 / 2 \<le> x / 2" using x(1) by simp
  then have qr: "1 / 2 ^ 149 \<le> q \<and> q \<le> 2 ^ 128" using qb x(2) by simp
  obtain l where l: "lf (Fin q) = Fin l" "\<bar>l - ln q\<bar> \<le> 1 / 100000"
    using lf qr unfolding logf_accurate_def by blast
  have "ln q = ln x + ln (1 + d)"
    using qx r(1) d1 by (simp add: ln_mult)
  moreover have "\<bar>ln (1 + d)\<bar> \<le> 2 * \<bar>d\<bar>"
    using d by (intro ln_near_one) simp
  ultimately have e1: "\<bar>ln q - ln x\<bar> \<le> 1 / 2 ^ 22" using d by simp
  have e2: "\<bar>l - ln x\<bar> \<le> 1 / 90000"
  proof -
    have "(1 / 100000 + 1 / 2 ^ 22 :: real) \<le> 1 / 90000" by simp
    then show ?thesis using l(2) e1 by linarith
  qed
  have lg: "log 2 x = ln x * (1 / ln 2)" by (simp add: log_def)
  have split: "l * INV_LN2 - log 2 x = (l - ln x) * INV_LN2 + ln x * (INV_LN2 - 1 / ln 2)"
    unfolding lg by (simp add: algebra_simps)
  have "\<bar>(l - ln x) * INV_LN2\<bar> = \<bar>l - ln x\<bar> * INV_LN2"
    using INV_LN2_bounds by (simp add: abs_mult)
  also have "\<dots> \<le> 1 / 90000 * (3 / 2)"
    using e2 INV_LN2_bounds by (intro mult_mono) simp_all
  finally have a1: "\<bar>(l - ln x) * INV_LN2\<bar> \<le> 1 / 60000" by simp
  have "\<bar>ln x * (INV_LN2 - 1 / ln 2)\<bar> = \<bar>ln x\<bar> * \<bar>INV_LN2 - 1 / ln 2\<bar>" by (simp add: abs_mult)
  also have "\<dots> \<le> 89 * (1 / 40000000)"
    using r(3) INV_LN2_err by (intro mult_mono) simp_all
  finally have a2: "\<bar>ln x * (INV_LN2 - 1 / ln 2)\<bar> \<le> 1 / 400000" by simp
  have e3: "\<bar>l * INV_LN2 - log 2 x\<bar> \<le> 1 / 50000"
    unfolding split using a1 a2 by linarith
  have b: "\<bar>l * INV_LN2\<bar> \<le> 128" using e3 r(2) by linarith
  obtain \<rho> where \<rho>: "rnd (l * INV_LN2) = Fin \<rho>" "\<bar>\<rho> - l * INV_LN2\<bar> \<le> 1 / 100000"
    using rnd_small [OF b] by auto
  have "\<bar>\<rho> - log 2 x\<bar> \<le> 1 / 20000" using \<rho>(2) e3 by linarith
  then show ?thesis using q(1) l(1) \<rho>(1) by simp
qed

lemma rne_nonneg: "0 \<le> x \<Longrightarrow> 0 \<le> rne x"
  unfolding rne_def Let_def by (auto; linarith)

lemma rnd_nonneg: "0 \<le> x \<Longrightarrow> fle (Fin 0) (rnd x)"
proof (cases "x = 0")
  case False
  assume "0 \<le> x"
  then have pos: "0 < x" using False by simp
  have "0 \<le> x / 2 powi (float_exponent x - 23)" using pos by simp
  then have "0 \<le> rne (x / 2 powi (float_exponent x - 23))" by (rule rne_nonneg)
  then have "0 \<le> real_of_int (rne (x / 2 powi (float_exponent x - 23))) * 2 powi (float_exponent x - 23)"
    by simp
  then show ?thesis using pos by (simp add: rnd_def Let_def)
qed simp

lemma fmul_not_nan_right: "x \<noteq> NaN \<Longrightarrow> b \<noteq> 0 \<Longrightarrow> fmul x (Fin b) \<noteq> NaN"
  by (cases x) simp_all

lemma fmul_not_nan_left: "x \<noteq> NaN \<Longrightarrow> b \<noteq> 0 \<Longrightarrow> fmul (Fin b) x \<noteq> NaN"
  by (cases x) simp_all

lemma fadd_not_nan_left: "x \<noteq> NaN \<Longrightarrow> fadd (Fin b) x \<noteq> NaN"
  by (cases x) simp_all

lemma fadd_not_nan_right: "x \<noteq> NaN \<Longrightarrow> fadd x (Fin b) \<noteq> NaN"
  by (cases x) simp_all

section \<open>Properties of the acquisition engine\<close>

lemma TICKS_MIN_eq: "TICKS_MIN = 200"
  by (simp add: TICKS_MIN_def trunc_real_def TIMER1_CLK_HZ_def F_CPU_def TIMER1_PRESCALER_def
      FREQ_MAX_HZ_def)

lemma TICKS_MAX_eq: "TICKS_MAX = 66666"
  by (simp add: TICKS_MAX_def trunc_real_def TIMER1_CLK_HZ_def F_CPU_def TIMER1_PRESCALER_def
      FREQ_MIN_HZ_def)

lemma TIMER1_CLK_HZ_eq: "TIMER1_CLK_HZ = 2000000"
  by (simp add: TIMER1_CLK_HZ_def F_CPU_def TIMER1_PRESCALER_def)

subsection \<open>The stored estimate is never the sentinel\<close>

lemma lowest_reading_gt: "30 < lowest_reading"
  by (simp add: lowest_reading_def TICKS_MAX_eq TIMER1_CLK_HZ_eq)

lemma ema_ok_init: "ema_ok (freq_init now)"
  by (simp add: ema_ok_def freq_init_def)

lemma ema_ok_capt: "ema_ok s \<Longrightarrow> ema_ok (isr_capt icr tov s)"
  by (simp add: ema_ok_def isr_capt_def Let_def)

lemma ema_ok_ovf: "ema_ok s \<Longrightarrow> ema_ok (isr_ovf s)"
  by (simp add: ema_ok_def isr_ovf_def)

lemma accepted_reading_ge:
  assumes "TICKS_MIN \<le> t" "t \<le> TICKS_MAX"
  shows "lowest_reading \<le> real TIMER1_CLK_HZ / real (unat t)"
proof -
  have a: "unat t \<le> unat TICKS_MAX" using assms(2) by (simp add: word_le_nat_alt)
  have "200 \<le> unat t" using assms(1) by (simp add: TICKS_MIN_eq word_le_nat_alt)
  then have b: "0 < real (unat t)" by linarith
  have c: "real (unat t) \<le> real (unat TICKS_MAX)" using a by linarith
  show ?thesis unfolding lowest_reading_def
    by (rule divide_left_mono [OF c]) (use b c in \<open>simp_all add: TICKS_MAX_eq\<close>)
qed

lemma ema_step_ge:
  fixes e f l :: real
  assumes "l \<le> e" "l \<le> f"
  shows "l \<le> e + (f - e) * (EMA_NUM / EMA_DEN)"
  unfolding EMA_NUM_def EMA_DEN_def using assms by argo

lemma ema_ok_read: "ema_ok s \<Longrightarrow> ema_ok (snd (freq_read ms_ok ms_chk s))"
  unfolding ema_ok_def freq_read_def Let_def
  using accepted_reading_ge [of "s_icr32 s - s_prevIcr32 s"]
        ema_step_ge [of lowest_reading _ "real TIMER1_CLK_HZ / real (unat (s_icr32 s - s_prevIcr32 s))"]
  by (auto split: cfloat.splits if_splits)

lemma reachable_ema_ok: "reachable s \<Longrightarrow> ema_ok s"
  by (induction rule: reachable.induct)
     (simp_all add: ema_ok_init ema_ok_capt ema_ok_ovf ema_ok_read)


lemma isr_ovf_funpow: "(isr_ovf ^^ n) s = s\<lparr>s_ovf := s_ovf s + of_nat n\<rparr>"
  by (induction n) (simp_all add: isr_ovf_def add.assoc)

lemma reachable_ovf_funpow: "reachable s \<Longrightarrow> reachable ((isr_ovf ^^ n) s)"
  by (induction n) (simp_all add: r_ovf)

lemma tracking_state_eq:
  "tracking_state = \<lparr>s_ovf = 0, s_icr32 = 5545, s_newCap = False, s_prevIcr32 = 5545,
      s_freq_ema = Fin (2000000 / 4545), s_freq_raw = Fin (2000000 / 4545), s_lastOkMs = 13\<rparr>"
  by (simp add: tracking_state_def freq_read_def isr_capt_def freq_init_def Let_def
      TICKS_MIN_eq TICKS_MAX_eq TIMER1_CLK_HZ_eq NO_SIGNAL_TIMEOUT_MS_def)

lemma wrapped_state_eq:
  "wrapped_state = \<lparr>s_ovf = 0, s_icr32 = 0, s_newCap = False, s_prevIcr32 = 0,
      s_freq_ema = Fin (2000000 / 4545), s_freq_raw = Fin (2000000 / 4545), s_lastOkMs = 2147484\<rparr>"
  by (simp add: wrapped_state_def isr_ovf_funpow freq_read_def isr_capt_def isr_ovf_def freq_init_def Let_def
      TICKS_MIN_eq TICKS_MAX_eq TIMER1_CLK_HZ_eq NO_SIGNAL_TIMEOUT_MS_def EMA_NUM_def EMA_DEN_def)

lemma silent_state_eq:
  "silent_state = \<lparr>s_ovf = 30, s_icr32 = 2000000, s_newCap = True, s_prevIcr32 = 0,
      s_freq_ema = Fin (2000000 / 4545), s_freq_raw = Fin (2000000 / 4545), s_lastOkMs = 2147484\<rparr>"
  by (simp add: silent_state_def wrapped_state_eq isr_ovf_funpow isr_capt_def)

lemma reachable_tracking: "reachable tracking_state"
  unfolding tracking_state_def by (intro r_read r_capt r_init)

lemma reachable_wrapped: "reachable wrapped_state"
  unfolding wrapped_state_def Let_def by (intro r_read r_capt r_ovf reachable_ovf_funpow r_init)

lemma reachable_silent: "reachable silent_state"
  unfolding silent_state_def by (intro r_capt reachable_ovf_funpow reachable_wrapped)

subsection \<open>The no-signal timeout\<close>

text \<open>
  C1 (amended). In every reachable state, a \<open>freq_read\<close> that does not take the
  priming early return (no capture is pending, or a baseline is already stored) and finds
  more than \<open>NO_SIGNAL_TIMEOUT_MS\<close> elapsed since the last accepted period returns
  the sentinel \<open>0.0\<close>, whatever estimate is stored. Whenever the result is not the
  sentinel it is the stored estimate, and a stored finite estimate is above 30 Hz, so
  the sentinel is never a reading.
\<close>

theorem freq_read_no_signal:
  assumes "reachable s" and "freq_read ms_ok ms_chk s = (r, s')"
  shows "(\<not> (s_newCap s \<and> s_prevIcr32 s = 0) \<and> NO_SIGNAL_TIMEOUT_MS < ms_chk - s_lastOkMs s'
            \<longrightarrow> r = Fin 0) \<and>
         (r \<noteq> Fin 0 \<longrightarrow> r = s_freq_ema s') \<and>
         (\<forall>e. s_freq_ema s' = Fin e \<longrightarrow> 30 < e)"
proof -
  have ok: "ema_ok s'"
    using ema_ok_read [OF reachable_ema_ok [OF assms(1)], of ms_ok ms_chk] assms(2) by simp
  have low: "\<forall>e. s_freq_ema s' = Fin e \<longrightarrow> 30 < e"
    using ok lowest_reading_gt by (auto simp: ema_ok_def)
  have ret: "(\<not> (s_newCap s \<and> s_prevIcr32 s = 0) \<and> NO_SIGNAL_TIMEOUT_MS < ms_chk - s_lastOkMs s'
            \<longrightarrow> r = Fin 0) \<and> (r \<noteq> Fin 0 \<longrightarrow> r = s_freq_ema s')"
    using assms(2) unfolding freq_read_def Let_def
    by (auto split: if_splits cfloat.splits)
  show ?thesis using low ret by blast
qed

theorem freq_read_no_signal_witness:
  "reachable tracking_state \<and>
   freq_read 1013 1013 tracking_state = (Fin 0, tracking_state) \<and>
   \<not> (s_newCap tracking_state \<and> s_prevIcr32 tracking_state = 0) \<and>
   NO_SIGNAL_TIMEOUT_MS < 1013 - s_lastOkMs tracking_state \<and>
   s_freq_ema tracking_state = Fin (2000000 / 4545) \<and>
   (30 :: real) < 2000000 / 4545"
proof -
  have r: "reachable tracking_state"
    by (rule reachable_tracking)
  have e: "freq_read 1013 1013 tracking_state = (Fin 0, tracking_state)"
    by (simp add: tracking_state_eq freq_read_def NO_SIGNAL_TIMEOUT_MS_def)
  have h: "\<not> (s_newCap tracking_state \<and> s_prevIcr32 tracking_state = 0) \<and>
      NO_SIGNAL_TIMEOUT_MS < 1013 - s_lastOkMs tracking_state \<and>
      s_freq_ema tracking_state = Fin (2000000 / 4545)"
    by (simp add: tracking_state_eq NO_SIGNAL_TIMEOUT_MS_def)
  show ?thesis
    using freq_read_no_signal [OF r e] r e h by blast
qed

text \<open>
  C1 as stated fails on the priming branch, which returns before the timeout test.
  First run: initialisation at 0 ms, the first edge is read at 500 ms, and the result is
  the stored NaN. Second run: the baseline is 0 again after an edge with timestamp 0,
  the signal has been silent for a second, and the result is the stale 440 Hz estimate.
\<close>

theorem freq_read_priming_ignores_timeout:
  "reachable (isr_capt 100 False (freq_init 0)) \<and>
   NO_SIGNAL_TIMEOUT_MS < 500 - s_lastOkMs (snd (freq_read 500 500 (isr_capt 100 False (freq_init 0)))) \<and>
   fst (freq_read 500 500 (isr_capt 100 False (freq_init 0))) = NaN \<and>
   reachable silent_state \<and>
   NO_SIGNAL_TIMEOUT_MS < 2148484 - s_lastOkMs (snd (freq_read 2148484 2148484 silent_state)) \<and>
   fst (freq_read 2148484 2148484 silent_state) = Fin (2000000 / 4545)"
proof -
  have a: "reachable (isr_capt 100 False (freq_init 0))"
    by (intro r_capt r_init)
  have b: "NO_SIGNAL_TIMEOUT_MS < 500 - s_lastOkMs (snd (freq_read 500 500 (isr_capt 100 False (freq_init 0)))) \<and>
      fst (freq_read 500 500 (isr_capt 100 False (freq_init 0))) = NaN"
    by (simp add: freq_read_def isr_capt_def freq_init_def NO_SIGNAL_TIMEOUT_MS_def)
  have c: "NO_SIGNAL_TIMEOUT_MS < 2148484 - s_lastOkMs (snd (freq_read 2148484 2148484 silent_state)) \<and>
      fst (freq_read 2148484 2148484 silent_state) = Fin (2000000 / 4545)"
    by (simp add: silent_state_eq freq_read_def NO_SIGNAL_TIMEOUT_MS_def)
  show ?thesis
    using a b c reachable_silent by blast
qed

subsection \<open>Glitch rejection\<close>

text \<open>
  C5. A \<open>freq_read\<close> that consumes a capture stores that capture as the new baseline
  in every case. When the tick delta to the previous baseline is below \<open>TICKS_MIN\<close>
  or above \<open>TICKS_MAX\<close>, and in particular when it is \<open>TICKS_MAX + 1\<close>, the smoothed
  estimate, the raw frequency and the last-valid time are left as they were. (This holds
  for a first capture too, which only primes the baseline.)
\<close>

theorem freq_read_out_of_band:
  assumes "s_newCap s"
  shows "s_prevIcr32 (snd (freq_read ms_ok ms_chk s)) = s_icr32 s \<and>
         (s_icr32 s - s_prevIcr32 s < TICKS_MIN \<or> TICKS_MAX < s_icr32 s - s_prevIcr32 s \<longrightarrow>
            s_freq_ema (snd (freq_read ms_ok ms_chk s)) = s_freq_ema s \<and>
            s_freq_raw (snd (freq_read ms_ok ms_chk s)) = s_freq_raw s \<and>
            s_lastOkMs (snd (freq_read ms_ok ms_chk s)) = s_lastOkMs s) \<and>
         (s_icr32 s - s_prevIcr32 s = TICKS_MAX + 1 \<longrightarrow>
            s_freq_ema (snd (freq_read ms_ok ms_chk s)) = s_freq_ema s)"
proof -
  have "TICKS_MAX < TICKS_MAX + 1" by (simp add: TICKS_MAX_eq)
  then show ?thesis using assms
    by (auto simp: freq_read_def Let_def split: cfloat.splits)
qed

theorem freq_read_out_of_band_witness:
  "s_newCap glitch_state \<and> s_prevIcr32 glitch_state \<noteq> 0 \<and>
   s_icr32 glitch_state - s_prevIcr32 glitch_state = TICKS_MAX + 1 \<and>
   TICKS_MAX < s_icr32 glitch_state - s_prevIcr32 glitch_state \<and>
   s_prevIcr32 (snd (freq_read 10 10 glitch_state)) = 67667 \<and>
   s_freq_ema (snd (freq_read 10 10 glitch_state)) = Fin 440"
  using freq_read_out_of_band [of glitch_state 10 10]
  by (simp add: glitch_state_def TICKS_MAX_eq)

subsection \<open>Priming\<close>

text \<open>
  C6 fails on the code: the baseline value 0 stands for "no capture yet", so after a
  capture whose timestamp is 0 the next capture primes again. In the first run the
  first edge after initialisation has timestamp 0 and the second, 4545 ticks later, is
  treated as a first sample: no frequency is derived. With the first edge at timestamp
  1 the second one gives 440 Hz. In the second run the timestamp wraps to 0 while a
  440 Hz signal is tracked, and the capture after it is again treated as a first
  sample: it becomes the baseline and the estimate is returned as it was.
\<close>

theorem freq_read_zero_timestamp_reprimes:
  "s_prevIcr32 (snd (freq_read 1 1 (isr_capt 0 False (freq_init 0)))) = 0 \<and>
   freq_read 3 3 (isr_capt 4545 False (snd (freq_read 1 1 (isr_capt 0 False (freq_init 0))))) =
     (NaN, \<lparr>s_ovf = 0, s_icr32 = 4545, s_newCap = False, s_prevIcr32 = 4545,
            s_freq_ema = NaN, s_freq_raw = NaN, s_lastOkMs = 0\<rparr>) \<and>
   freq_read 3 3 (isr_capt 4546 False (snd (freq_read 1 1 (isr_capt 1 False (freq_init 0))))) =
     (Fin (2000000 / 4545), \<lparr>s_ovf = 0, s_icr32 = 4546, s_newCap = False, s_prevIcr32 = 4546,
            s_freq_ema = Fin (2000000 / 4545), s_freq_raw = Fin (2000000 / 4545), s_lastOkMs = 3\<rparr>) \<and>
   reachable wrapped_state \<and> s_prevIcr32 wrapped_state = 0 \<and>
   freq_read 2147487 2147487 (isr_capt 5000 False wrapped_state) =
     (Fin (2000000 / 4545), \<lparr>s_ovf = 0, s_icr32 = 5000, s_newCap = False, s_prevIcr32 = 5000,
            s_freq_ema = Fin (2000000 / 4545), s_freq_raw = Fin (2000000 / 4545),
            s_lastOkMs = 2147484\<rparr>)"
proof -
  have a: "s_prevIcr32 (snd (freq_read 1 1 (isr_capt 0 False (freq_init 0)))) = 0 \<and>
   freq_read 3 3 (isr_capt 4545 False (snd (freq_read 1 1 (isr_capt 0 False (freq_init 0))))) =
     (NaN, \<lparr>s_ovf = 0, s_icr32 = 4545, s_newCap = False, s_prevIcr32 = 4545,
            s_freq_ema = NaN, s_freq_raw = NaN, s_lastOkMs = 0\<rparr>) \<and>
   freq_read 3 3 (isr_capt 4546 False (snd (freq_read 1 1 (isr_capt 1 False (freq_init 0))))) =
     (Fin (2000000 / 4545), \<lparr>s_ovf = 0, s_icr32 = 4546, s_newCap = False, s_prevIcr32 = 4546,
            s_freq_ema = Fin (2000000 / 4545), s_freq_raw = Fin (2000000 / 4545), s_lastOkMs = 3\<rparr>)"
    by (simp add: freq_read_def isr_capt_def freq_init_def Let_def
        TICKS_MIN_eq TICKS_MAX_eq TIMER1_CLK_HZ_eq NO_SIGNAL_TIMEOUT_MS_def)
  have b: "s_prevIcr32 wrapped_state = 0 \<and>
   freq_read 2147487 2147487 (isr_capt 5000 False wrapped_state) =
     (Fin (2000000 / 4545), \<lparr>s_ovf = 0, s_icr32 = 5000, s_newCap = False, s_prevIcr32 = 5000,
            s_freq_ema = Fin (2000000 / 4545), s_freq_raw = Fin (2000000 / 4545),
            s_lastOkMs = 2147484\<rparr>)"
    by (simp add: wrapped_state_eq freq_read_def isr_capt_def NO_SIGNAL_TIMEOUT_MS_def)
  show ?thesis
    using a b reachable_wrapped by blast
qed

section \<open>Properties of the pitch mapper\<close>

lemma int16_cast_id: "- 32768 \<le> x \<Longrightarrow> x \<le> 32767 \<Longrightarrow> int16_cast x = x"
  unfolding int16_cast_def
  by (simp add: sint_sbintrunc' signed_take_bit_int_eq_self_iff)

text \<open>440 Hz against 440 Hz: the quotient is 1, its logarithm 0, and every later
  operation is exact.\<close>

lemma midi_float_a440: "midi_float logf_cr (Fin 440) (Fin 440) = Fin 69"
proof -
  have q: "fdiv (Fin 440) (Fin 440) = Fin 1"
    by (simp, subst rnd_binade [of 0]) (simp_all add: rne_def Let_def FLT_MAX_def)
  have l: "logf_cr (Fin 1) = Fin 0"
    by simp
  have r: "fmul (Fin 0) (Fin INV_LN2) = Fin 0"
    by simp
  have p: "fmul (Fin 12) (Fin 0) = Fin 0"
    by simp
  have m: "fadd (Fin 69) (Fin 0) = Fin 69"
    by (simp, subst rnd_binade [of 6]) (simp_all add: rne_def Let_def FLT_MAX_def)
  show ?thesis
    by (simp only: midi_float_def Let_def q l r p m)
qed

lemma midi_round_69: "midi_round (Fin 69) = 69"
proof -
  have w: "fadd (Fin 69) (Fin (1 / 2)) = Fin (139 / 2)"
    by (simp, subst rnd_binade [of 6]) (simp_all add: rne_def Let_def FLT_MAX_def)
  show ?thesis
    by (simp add: midi_round_def w trunc_real_def int16_cast_def del: fadd.simps)
qed

lemma cents_float_69: "cents_float (Fin 69) 69 = Fin 0"
  by (simp add: cents_float_def fsub_def)

lemma a440: "frequency_to_note logf_cr (Fin 440) (Fin 440) = (''A 4'', Fin 0, 69)"
  by (simp add: frequency_to_note_def concert_a_or_default_def midi_float_a440 midi_round_69
      cents_float_69 Let_def CENTS_LIMIT_def int8_cast_def uint8_cast_def c_mod_def c_div_def
      note_text_def note_names_def char_of_def)

text \<open>The float \<open>14840395 / 2^15\<close>, about 452.893 Hz, against 440 Hz: \<open>midi_f\<close> is rounded
  to the tie 69.5.\<close>

lemma ln_qtie_lo: "(288810187 / 10000000000 :: real) < ln (2158603 / 2097152)"
  by (rule ln_lower) (simp_all add: power_divide)

lemma ln_qtie_hi: "ln (2158603 / 2097152) < (288810197 / 10000000000 :: real)"
  by (rule ln_upper) (simp_all add: power_divide)

lemma logf_cr_qtie: "logf_cr (Fin (2158603 / 2097152)) = Fin (15505379 / 536870912)"
proof -
  have "rnd (ln (2158603 / 2097152)) = Fin (of_int 15505379 * 2 powi (- 6 - 23))"
    by (rule rnd_between [OF ln_qtie_lo ln_qtie_hi]) (simp_all add: FLT_MAX_def)
  then show ?thesis by simp
qed

lemma midi_float_tie: "midi_float logf_cr (Fin (14840395 / 32768)) (Fin 440) = Fin (139 / 2)"
proof -
  have q: "fdiv (Fin (14840395 / 32768)) (Fin 440) = Fin (2158603 / 2097152)"
    by (simp, subst rnd_binade [of "0"]) (simp_all add: rne_def Let_def FLT_MAX_def)
  have r: "fmul (Fin (15505379 / 536870912)) (Fin INV_LN2) = Fin (11184767 / 268435456)"
    by (simp add: INV_LN2_def, subst rnd_binade [of "- 5"]) (simp_all add: rne_def Let_def FLT_MAX_def)
  have p: "fmul (Fin 12) (Fin (11184767 / 268435456)) = Fin (8388575 / 16777216)"
    by (simp, subst rnd_binade [of "- 2"]) (simp_all add: rne_def Let_def FLT_MAX_def)
  have m: "fadd (Fin 69) (Fin (8388575 / 16777216)) = Fin (139 / 2)"
    by (simp, subst rnd_binade [of "6"]) (simp_all add: rne_def Let_def FLT_MAX_def)
  show ?thesis
    by (simp only: midi_float_def Let_def q logf_cr_qtie r p m)
qed

lemma midi_round_tie: "midi_round (Fin (139 / 2)) = 70"
proof -
  have w: "fadd (Fin (139 / 2)) (Fin (1 / 2)) = Fin 70"
    by (simp, subst rnd_binade [of "6"]) (simp_all add: rne_def Let_def FLT_MAX_def)
  show ?thesis
    by (simp add: midi_round_def w trunc_real_def int16_cast_def del: fadd.simps)
qed

lemma cents_float_tie: "cents_float (Fin (139 / 2)) 70 = Fin (- 50)"
proof -
  have d: "fsub (Fin (139 / 2)) (Fin 70) = Fin (- (1 / 2))"
    by (simp add: fsub_def, subst rnd_binade [of "- 1"]) (simp_all add: rne_def Let_def FLT_MAX_def)
  have c: "fmul (Fin (- (1 / 2))) (Fin 100) = Fin (- 50)"
    by (simp, subst rnd_binade [of "5"]) (simp_all add: rne_def Let_def FLT_MAX_def)
  show ?thesis
    by (simp add: cents_float_def d c del: fmul.simps)
qed

lemma frequency_to_note_tie:
  "frequency_to_note logf_cr (Fin (14840395 / 32768)) (Fin 440) =
     (''A#4'', Fin (- CENTS_LIMIT), 70)"
  by (simp add: frequency_to_note_def concert_a_or_default_def midi_float_tie midi_round_tie
      cents_float_tie Let_def CENTS_LIMIT_def int8_cast_def uint8_cast_def c_mod_def c_div_def
      note_text_def note_names_def char_of_def)

text \<open>The float \<open>midi_f\<close> is within \<open>10^-3\<close> of \<open>69 + 12 * log2 (f / a)\<close>.\<close>

lemma midi_float_err:
  assumes "logf_accurate lf" "0 < a" "1 / 2 ^ 126 \<le> f / a" "f / a \<le> 2 ^ 127"
  shows "\<exists>v. midi_float lf (Fin f) (Fin a) = Fin v \<and> \<bar>v - (69 + 12 * log 2 (f / a))\<bar> \<le> 1 / 1000"
proof -
  have fd: "fdiv (Fin f) (Fin a) = rnd (f / a)" using assms(2) by simp
  obtain \<rho> where \<rho>: "fmul (lf (rnd (f / a))) (Fin INV_LN2) = Fin \<rho>" "\<bar>\<rho> - log 2 (f / a)\<bar> \<le> 1 / 20000"
    using log2_pipeline [OF assms(1,3,4)] by blast
  have R: "\<bar>log 2 (f / a)\<bar> \<le> 127" using log2_float_range [OF assms(3,4)] by simp
  have b1: "\<bar>12 * \<rho>\<bar> \<le> 2002" using \<rho>(2) R by linarith
  obtain p where p: "rnd (12 * \<rho>) = Fin p" "\<bar>p - 12 * \<rho>\<bar> \<le> 1 / 8000"
    using rnd_medium [OF b1] by auto
  have b2: "\<bar>69 + p\<bar> \<le> 2002" using p(2) \<rho>(2) R by linarith
  obtain v where v: "rnd (69 + p) = Fin v" "\<bar>v - (69 + p)\<bar> \<le> 1 / 8000"
    using rnd_medium [OF b2] by auto
  have "\<bar>v - (69 + 12 * log 2 (f / a))\<bar> \<le> 1 / 1000"
    using v(2) p(2) \<rho>(2) by linarith
  then show ?thesis
    unfolding midi_float_def Let_def fd \<rho>(1) using p(1) v(1) by simp
qed

text \<open>The cheap rounding of line 75 gives the integer \<open>n\<close> as soon as \<open>midi_f\<close> is
  within 0.494 of it.\<close>

lemma midi_round_near:
  assumes "\<bar>v - real_of_int n\<bar> \<le> 247 / 500" "\<bar>n\<bar> \<le> 2000"
  shows "midi_round (Fin v) = n"
proof -
  have c: "int16_cast n = n" using assms(2) by (intro int16_cast_id) simp_all
  have nb: "\<bar>real_of_int n\<bar> \<le> 2000" using assms(2) by linarith
  show ?thesis
  proof (cases "0 \<le> v")
    case True
    have "- 1 < real_of_int n" using True assms(1) by linarith
    then have n0: "0 \<le> n" by linarith
    have b: "\<bar>v + 1 / 2\<bar> \<le> 2002" using nb assms(1) by linarith
    obtain w where w: "rnd (v + 1 / 2) = Fin w" "\<bar>w - (v + 1 / 2)\<bar> \<le> 1 / 8000"
      using rnd_medium [OF b] by auto
    have "real_of_int n \<le> w" "w < real_of_int n + 1"
      using w(2) assms(1) by linarith+
    then have "\<lfloor>w\<rfloor> = n" "0 \<le> w" using n0 by (simp_all add: floor_eq_iff)
    then show ?thesis using True w(1) c by (simp add: midi_round_def trunc_real_def)
  next
    case False
    have "real_of_int n < 1" using False assms(1) by linarith
    then have n0: "n \<le> 0" by linarith
    have b: "\<bar>v + - (1 / 2)\<bar> \<le> 2002" using nb assms(1) by linarith
    obtain w where w: "rnd (v + - (1 / 2)) = Fin w" "\<bar>w - (v + - (1 / 2))\<bar> \<le> 1 / 8000"
      using rnd_medium [OF b] by auto
    have wb: "real_of_int n - 1 < w" "w \<le> real_of_int n"
      using w(2) assms(1) by linarith+
    then have "\<lceil>w\<rceil> = n" by (simp add: ceiling_eq_iff)
    moreover have "w < 0" using wb False assms(1) w(2) by linarith
    ultimately show ?thesis using False w(1) c by (simp add: midi_round_def trunc_real_def)
  qed
qed

lemma round_half_away_nearest: "\<bar>x - real_of_int (round_half_away x)\<bar> \<le> 1 / 2"
proof (cases "x < 0")
  case True
  have "real_of_int \<lfloor>- x + 1 / 2\<rfloor> \<le> - x + 1 / 2" "- x + 1 / 2 < real_of_int \<lfloor>- x + 1 / 2\<rfloor> + 1"
    by linarith+
  moreover have "real_of_int (round_half_away x) = - real_of_int \<lfloor>- x + 1 / 2\<rfloor>"
    using True by (simp add: round_half_away_def)
  ultimately show ?thesis
    unfolding abs_le_iff by linarith
next
  case False
  have "real_of_int \<lfloor>x + 1 / 2\<rfloor> \<le> x + 1 / 2" "x + 1 / 2 < real_of_int \<lfloor>x + 1 / 2\<rfloor> + 1"
    by linarith+
  moreover have "real_of_int (round_half_away x) = real_of_int \<lfloor>x + 1 / 2\<rfloor>"
    using False by (simp add: round_half_away_def)
  ultimately show ?thesis
    unfolding abs_le_iff by linarith
qed

lemma round_half_away_of_int: "round_half_away (of_int n) = n"
  unfolding round_half_away_def by (auto; linarith)

lemma note_text_a4: "note_text (uint8_cast (c_mod (c_mod 69 12 + 12) 12)) (int8_cast (c_div 69 12 - 1)) = ''A 4''"
  by (simp add: int8_cast_def uint8_cast_def c_mod_def c_div_def note_text_def note_names_def
      char_of_def Let_def)

lemma CENTS_LIMIT_bounds: "49 < CENTS_LIMIT \<and> CENTS_LIMIT < 50 \<and> 4999 / 100 < CENTS_LIMIT"
  by (simp add: CENTS_LIMIT_def)

lemma tie_exact: "round_half_away (69 + 12 * log 2 (14840395 / 32768 / 440)) = 69"
proof -
  define x :: real where "x = 14840395 / 32768 / 440"
  have x1: "1 \<le> x" by (simp add: x_def)
  have "x ^ 24 < 2" by (simp add: x_def power_divide)
  then have "log 2 (x ^ 24) < log 2 2" using x1 by (subst log_less_cancel_iff) simp_all
  then have "24 * log 2 x < 1" using x1 by (simp add: log_nat_power)
  moreover have "0 \<le> log 2 x" using x1 by simp
  ultimately have "69 \<le> 69 + 12 * log 2 x" "69 + 12 * log 2 x < 69 + 1 / 2" by linarith+
  then have "\<lfloor>69 + 12 * log 2 x + 1 / 2\<rfloor> = 69" "\<not> 69 + 12 * log 2 x < 0"
    unfolding floor_eq_iff by linarith+
  then have "round_half_away (69 + 12 * log 2 x) = 69"
    by (simp only: round_half_away_def if_False)
  then show ?thesis by (simp only: x_def)
qed

lemma concert_a_pos: "0 < concert_a_or_default a"
  by (cases a) (simp_all add: concert_a_or_default_def)

lemma midi_float_not_nan:
  assumes "logf_defined lf" "0 \<le> f" "0 < a"
  shows "midi_float lf (Fin f) (Fin a) \<noteq> NaN"
proof -
  have "fdiv (Fin f) (Fin a) = rnd (f / a)" using assms(3) by simp
  moreover have "fle (Fin 0) (rnd (f / a))" using assms(2,3) by (intro rnd_nonneg) simp
  ultimately have "lf (fdiv (Fin f) (Fin a)) \<noteq> NaN"
    using assms(1) by (simp add: logf_defined_def)
  then have "fmul (lf (fdiv (Fin f) (Fin a))) (Fin INV_LN2) \<noteq> NaN"
    by (rule fmul_not_nan_right) (simp add: INV_LN2_def)
  then have "fmul (Fin 12) (fmul (lf (fdiv (Fin f) (Fin a))) (Fin INV_LN2)) \<noteq> NaN"
    by (rule fmul_not_nan_left) simp
  then show ?thesis
    unfolding midi_float_def Let_def by (rule fadd_not_nan_left)
qed

lemma cents_float_not_nan: "m \<noteq> NaN \<Longrightarrow> cents_float m i \<noteq> NaN"
  unfolding cents_float_def fsub_def
  by (intro fmul_not_nan_right) (simp_all add: fadd_not_nan_right)

lemma clamp_range:
  assumes "x \<noteq> NaN"
  shows "\<exists>c. (if fless (Fin CENTS_LIMIT) x then Fin CENTS_LIMIT
               else if fless x (Fin (- CENTS_LIMIT)) then Fin (- CENTS_LIMIT) else x) = Fin c \<and>
             - CENTS_LIMIT \<le> c \<and> c \<le> CENTS_LIMIT"
  using assms CENTS_LIMIT_bounds by (cases x) auto

subsection \<open>The MIDI number\<close>

text \<open>
  C2 (amended). Let \<open>logf\<close> be within \<open>10^-5\<close> of the natural logarithm. For every
  frequency \<open>f \<ge> 1\<close> Hz and every positive reference \<open>a\<close> whose quotient \<open>f / a\<close> lies
  in the range of the normal floats up to \<open>2^127\<close>, the MIDI number the mapper stores is
  \<open>69 + 12 * log2 (f / a)\<close> rounded to the nearest integer with ties away from zero,
  provided that this exact value is at least 0.01 away from the middle between two
  integers (at most 0.49 from its rounding): the single-precision \<open>midi_f\<close> is within
  \<open>10^-3\<close> of the exact value, and the truncation of \<open>midi_f \<plusminus> 0.5\<close> is then that
  rounding. In particular 440 Hz against 440 Hz gives the text "A 4" (note A, octave 4),
  MIDI number 69 and at most 0.2 cents.
\<close>

theorem frequency_to_note_midi:
  assumes "logf_accurate lf" and "1 \<le> f" and "0 < a"
    and "1 / 2 ^ 126 \<le> f / a" and "f / a \<le> 2 ^ 127"
    and "\<bar>69 + 12 * log 2 (f / a) - real_of_int (round_half_away (69 + 12 * log 2 (f / a)))\<bar>
           \<le> 49 / 100"
  shows "snd (snd (frequency_to_note lf (Fin f) (Fin a))) =
           round_half_away (69 + 12 * log 2 (f / a)) \<and>
         (\<exists>c. frequency_to_note lf (Fin 440) (Fin 440) = (''A 4'', Fin c, 69) \<and> \<bar>c\<bar> \<le> 1 / 5)"
proof -
  let ?T = "69 + 12 * log 2 (f / a)"
  let ?n = "round_half_away ?T"
  obtain v where v: "midi_float lf (Fin f) (Fin a) = Fin v" "\<bar>v - ?T\<bar> \<le> 1 / 1000"
    using midi_float_err [OF assms(1,3,4,5)] by blast
  have R: "\<bar>log 2 (f / a)\<bar> \<le> 127" using log2_float_range [OF assms(4,5)] by simp
  have "\<bar>real_of_int ?n\<bar> \<le> 1594" using assms(6) R by linarith
  then have n: "\<bar>?n\<bar> \<le> 2000" by linarith
  have "\<bar>v - real_of_int ?n\<bar> \<le> 247 / 500" using v(2) assms(6) by linarith
  then have m: "midi_round (Fin v) = ?n" using n by (rule midi_round_near)
  have first: "snd (snd (frequency_to_note lf (Fin f) (Fin a))) = ?n"
    using assms(2,3) by (simp add: frequency_to_note_def concert_a_or_default_def Let_def v(1) m)
  have r440: "(1 / 2 ^ 126 :: real) \<le> 440 / 440" "(440 / 440 :: real) \<le> 2 ^ 127" by simp_all
  obtain u where u: "midi_float lf (Fin 440) (Fin 440) = Fin u" "\<bar>u - (69 + 12 * log 2 (440 / 440))\<bar> \<le> 1 / 1000"
    using midi_float_err [OF assms(1) _ r440] by auto
  have u69: "\<bar>u - 69\<bar> \<le> 1 / 1000" using u(2) by simp
  have "\<bar>u - real_of_int 69\<bar> \<le> 247 / 500" using u69 by simp
  then have m69: "midi_round (Fin u) = 69" by (rule midi_round_near) simp
  have "\<bar>u - 69\<bar> \<le> 128" using u69 by simp
  then obtain d where d: "rnd (u - 69) = Fin d" "\<bar>d - (u - 69)\<bar> \<le> 1 / 100000"
    using rnd_small by blast
  have db: "\<bar>d * 100\<bar> \<le> 128" using d(2) u69 by linarith
  obtain c where c: "rnd (d * 100) = Fin c" "\<bar>c - d * 100\<bar> \<le> 1 / 100000"
    using rnd_small [OF db] by auto
  have cb: "\<bar>c\<bar> \<le> 1 / 5" using c(2) d(2) u69 by linarith
  have cf: "cents_float (Fin u) 69 = Fin c"
    by (simp add: cents_float_def fsub_def d(1) c(1))
  have "\<not> CENTS_LIMIT < c" "\<not> c < - CENTS_LIMIT"
    using cb CENTS_LIMIT_bounds by linarith+
  then have "frequency_to_note lf (Fin 440) (Fin 440) = (''A 4'', Fin c, 69)"
    by (simp add: frequency_to_note_def concert_a_or_default_def Let_def u(1) m69 cf note_text_a4)
  then show ?thesis using first cb by blast
qed

theorem frequency_to_note_midi_witness:
  "logf_accurate logf_cr \<and> (1 :: real) \<le> 884 \<and> (0 :: real) < 442 \<and>
   (1 / 2 ^ 126 :: real) \<le> 884 / 442 \<and> (884 / 442 :: real) \<le> 2 ^ 127 \<and>
   round_half_away (69 + 12 * log 2 (884 / 442)) = 81 \<and>
   snd (snd (frequency_to_note logf_cr (Fin 884) (Fin 442))) = 81"
proof -
  have t: "69 + 12 * log 2 (884 / 442 :: real) = real_of_int 81" by simp
  have r: "round_half_away (69 + 12 * log 2 (884 / 442)) = 81"
    unfolding t by (rule round_half_away_of_int)
  have h: "\<bar>69 + 12 * log 2 (884 / 442) - real_of_int (round_half_away (69 + 12 * log 2 (884 / 442)))\<bar>
      \<le> 49 / 100"
    unfolding r by simp
  show ?thesis
    using frequency_to_note_midi [OF logf_cr_accurate _ _ _ _ h] logf_cr_accurate r by simp
qed

text \<open>
  C2 as stated fails next to a tie. For the float \<open>14840395 / 2^15\<close> Hz against 440 Hz
  the exact value \<open>69 + 12 * log2 (f / 440)\<close> is below 69.5 and rounds to 69, while the
  single-precision \<open>midi_f\<close> is 69.5 and the mapper stores 70.
\<close>

theorem frequency_to_note_midi_tie:
  "(1 :: real) \<le> 14840395 / 32768 \<and>
   snd (snd (frequency_to_note logf_cr (Fin (14840395 / 32768)) (Fin 440))) = 70 \<and>
   round_half_away (69 + 12 * log 2 (14840395 / 32768 / 440)) = 69"
  using frequency_to_note_tie tie_exact by simp

subsection \<open>The cents value\<close>

text \<open>
  C3 (amended). For every frequency and reference, and every \<open>logf\<close> that returns a
  number for the arguments that are not negative, the cents value the mapper stores is a
  finite number between \<open>-49.99f\<close> and \<open>49.99f\<close>, the float of the clamp, which is
  \<open>13104579 / 2^18\<close>; it lies strictly between -50 and 50.
\<close>

theorem frequency_to_note_cents:
  assumes "logf_defined lf"
  shows "\<exists>c. fst (snd (frequency_to_note lf freq a)) = Fin c \<and>
             - CENTS_LIMIT \<le> c \<and> c \<le> CENTS_LIMIT \<and> - 50 < c \<and> c < 50"
proof -
  have "\<exists>c. fst (snd (frequency_to_note lf freq a)) = Fin c \<and> - CENTS_LIMIT \<le> c \<and> c \<le> CENTS_LIMIT"
  proof (cases freq)
    case (Fin f)
    show ?thesis
    proof (cases "f < 1")
      case True
      then show ?thesis using Fin CENTS_LIMIT_bounds by (simp add: frequency_to_note_def)
    next
      case False
      let ?m = "midi_float lf (Fin f) (Fin (concert_a_or_default a))"
      have "?m \<noteq> NaN"
        using False by (intro midi_float_not_nan [OF assms] concert_a_pos) simp
      then have "cents_float ?m (midi_round ?m) \<noteq> NaN" by (rule cents_float_not_nan)
      then show ?thesis
        using False Fin clamp_range [of "cents_float ?m (midi_round ?m)"]
        by (simp add: frequency_to_note_def Let_def)
    qed
  qed (use CENTS_LIMIT_bounds in \<open>simp_all add: frequency_to_note_def\<close>)
  then show ?thesis using CENTS_LIMIT_bounds by force
qed

theorem frequency_to_note_cents_witness:
  "logf_defined logf_cr \<and>
   fst (snd (frequency_to_note logf_cr (Fin 440) (Fin 440))) = Fin 0 \<and>
   - CENTS_LIMIT \<le> 0 \<and> 0 \<le> CENTS_LIMIT"
  using frequency_to_note_cents [OF logf_cr_defined, of "Fin 440" "Fin 440"] logf_cr_defined a440
  by simp

text \<open>
  C3 as stated fails at a tie of \<open>midi_f\<close>. For the float \<open>14840395 / 2^15\<close> Hz against
  440 Hz the value before the clamp is -50, outside \<open>(-50, 50]\<close>, and the stored value is
  the float \<open>-49.99f\<close>, which is below -49.99.
\<close>

theorem frequency_to_note_cents_tie:
  "fst (snd (frequency_to_note logf_cr (Fin (14840395 / 32768)) (Fin 440))) =
     Fin (- (13104579 / 262144)) \<and>
   (- (13104579 / 262144) :: real) < - (4999 / 100) \<and>
   cents_float (midi_float logf_cr (Fin (14840395 / 32768)) (Fin 440))
     (midi_round (midi_float logf_cr (Fin (14840395 / 32768)) (Fin 440))) = Fin (- 50)"
  by (simp add: frequency_to_note_tie midi_float_tie midi_round_tie cents_float_tie CENTS_LIMIT_def)

subsection \<open>Invalid inputs\<close>

text \<open>
  C7. A frequency that is not finite or is below 1 Hz gives the neutral result: the
  empty text, 0 cents and MIDI number 0. A reference pitch that is not finite or is not
  positive gives the result that 440 Hz gives.
\<close>

theorem frequency_to_note_guards:
  "(\<not> isfinite freq \<or> fless freq (Fin 1) \<longrightarrow> frequency_to_note lf freq a = ('''', Fin 0, 0)) \<and>
   (\<not> isfinite a \<or> fle a (Fin 0) \<longrightarrow> frequency_to_note lf freq a = frequency_to_note lf freq (Fin 440))"
  by (cases freq; cases a) (simp_all add: frequency_to_note_def concert_a_or_default_def)

theorem frequency_to_note_guards_witness:
  "\<not> isfinite NaN \<and> frequency_to_note logf_cr NaN (Fin 440) = ('''', Fin 0, 0) \<and>
   fless (Fin (1 / 2)) (Fin 1) \<and> frequency_to_note logf_cr (Fin (1 / 2)) (Fin 440) = ('''', Fin 0, 0) \<and>
   \<not> isfinite PInf \<and> frequency_to_note logf_cr (Fin 440) PInf = (''A 4'', Fin 0, 69) \<and>
   fle (Fin (- 3)) (Fin 0) \<and> frequency_to_note logf_cr (Fin 440) (Fin (- 3)) = (''A 4'', Fin 0, 69)"
  using frequency_to_note_guards [where lf = logf_cr and freq = NaN and a = "Fin 440"]
    frequency_to_note_guards [where lf = logf_cr and freq = "Fin (1 / 2)" and a = "Fin 440"]
    frequency_to_note_guards [where lf = logf_cr and freq = "Fin 440" and a = PInf]
    frequency_to_note_guards [where lf = logf_cr and freq = "Fin 440" and a = "Fin (- 3)"]
    a440
  by simp

section \<open>Properties of the renderer\<close>

lemma emit_simps [simp]:
  "device_i2c_addr (emit e s) = device_i2c_addr s"
  "memory_pointer (emit e s) = memory_pointer s"
  "bitmap_buffer (emit e s) = bitmap_buffer s"
  "tuner_view_mode (emit e s) = tuner_view_mode s"
  "s_prev_col (emit e s) = s_prev_col s"
  "s_prev_note_idx (emit e s) = s_prev_note_idx s"
  "s_prev_alt (emit e s) = s_prev_alt s"
  "s_prev_octave (emit e s) = s_prev_octave s"
  "wire (emit e s) = wire s @ e"
  by (simp_all add: emit_def)

lemma emit_emit: "emit b (emit a s) = emit (a @ b) s"
  by (simp add: emit_def)

lemma emit_mp: "emit e (s\<lparr>memory_pointer := m\<rparr>) = (emit e s)\<lparr>memory_pointer := m\<rparr>"
  by (simp add: emit_def)

lemma loop_step:
  "0 < sint (of_char c :: 8 word) \<Longrightarrow>
   print_string5_loop r pos (c # cs) s =
     print_string5_loop r (pos + 1) cs
       ((emit ((if pos = 3 then [EndTransmission, Delay 1, BeginTransmission (device_i2c_addr s),
                          WireWrite CMD_DISPLAY_DATA_INPUT_COMMAND,
                          WireWrite (memory_pointer s)] else []) @ glyph_wire r (of_char c - 0x20)) s)
          \<lparr>memory_pointer := memory_pointer s + 16\<rparr>)"
  by (simp add: Let_def emit_emit glyph_wire_def emit_def)

lemma print_string5_placeholder:
  "print_string5 r ''-    '' s =
     s\<lparr>memory_pointer := 80, wire := wire s @ placeholder_wire r (device_i2c_addr s)\<rparr>"
  unfolding print_string5_def Let_def
  apply (subst loop_step, simp)
  apply (subst loop_step, simp)
  apply (subst loop_step, simp)
  apply (subst loop_step, simp)
  apply (subst loop_step, simp)
  apply (simp add: emit_def placeholder_wire_def)
  done

lemma print_string5_empty:
  "print_string5 r '''' s =
     s\<lparr>memory_pointer := 0, wire := wire s @
        [BeginTransmission (device_i2c_addr s), WireWrite CMD_DISPLAY_DATA_INPUT_COMMAND,
         WireWrite 0, EndTransmission, Delay 1]\<rparr>"
  by (simp add: print_string5_def emit_def Let_def)

lemma upt5: "[0..<5] = [0, 1, 2, 3, 4]"
  by (simp add: upt_rec)

lemma print_drift_zero_numeric:
  "tuner_view_mode s = numeric \<Longrightarrow>
   wire (print_drift r (Fin 0) s) = wire s @
     [BeginTransmission (device_i2c_addr s), WireWrite CMD_DISPLAY_DATA_INPUT_COMMAND,
      WireWrite (memory_pointer s)]
     @ map (\<lambda>y. WireWrite (font_small_numbers r 10 y)) [0..<5]
     @ [WireWrite 0, WireWrite 0, WireWrite 0]
     @ map (\<lambda>y. WireWrite (push_bit 4 (font_small_numbers r 0 y) OR font_small_numbers r 0 y)) [0..<5]
     @ [WireWrite 0, WireWrite 0, WireWrite 0, EndTransmission, Delay 1]"
  by (simp add: print_drift_def Let_def trunc_real_def int8_cast_def uint8_cast_def
      c_mod_def c_div_def)

subsection \<open>The validity floor\<close>

text \<open>
  C4 (amended). In every view mode, a frequency that compares below the
  minimum-valid-frequency floor (a finite value below it, or minus infinity) makes
  \<open>render_pitch_and_drift\<close> emit the fixed placeholder sequence and nothing else: the
  memory pointer ends at 80, the bus carries the placeholder, and the rest of the state
  is untouched. The result depends on neither the reference pitch nor the view mode, so
  the pitch mapper has no part in it. (A NaN or plus-infinity frequency does not compare
  below the floor.)
\<close>

theorem render_below_floor:
  "fless freq min_valid_freq \<longrightarrow>
     render_pitch_and_drift r lf freq a min_valid_freq s =
       s\<lparr>memory_pointer := 80, wire := wire s @ placeholder_wire r (device_i2c_addr s)\<rparr>"
  by (simp add: render_pitch_and_drift_def print_string5_placeholder)

theorem render_below_floor_witness:
  "fless (Fin 5) (Fin 10) \<and>
   wire (render_pitch_and_drift index_rom logf_cr (Fin 5) (Fin 440) (Fin 10) numeric_state) =
     placeholder_wire index_rom 0x68 \<and>
   fless NInf (Fin 10) \<and>
   wire (render_pitch_and_drift index_rom logf_cr NInf (Fin 440) (Fin 10) ht1635_new) =
     placeholder_wire index_rom 0x68 \<and>
   placeholder_wire index_rom 0x68 ! 3 = WireWrite 13"
proof -
  have d: "placeholder_wire index_rom 0x68 ! 3 = WireWrite 13"
    by (simp add: placeholder_wire_def glyph_wire_def index_rom_def upt_rec)
  show ?thesis
    using render_below_floor [of "Fin 5" "Fin 10" index_rom logf_cr "Fin 440" numeric_state]
      render_below_floor [of NInf "Fin 10" index_rom logf_cr "Fin 440" ht1635_new] d
    by (simp add: numeric_state_def ht1635_new_def HT1635_I2C_ADDRESS_def)
qed

text \<open>
  C4 as stated fails for a NaN frequency, which is not below the floor: in the numeric
  view the pitch mapper is consulted and returns its neutral result, the bus carries an
  empty name and the drift "+00" (glyph 10 is the plus sign) instead of the
  placeholder, and in the keyboard view nothing is written.
\<close>

theorem render_nan_no_placeholder:
  "\<not> isfinite NaN \<and>
   wire (render_pitch_and_drift index_rom logf_cr NaN (Fin 440) (Fin 10) numeric_state) =
     [BeginTransmission 0x68, WireWrite 0x80, WireWrite 0, EndTransmission, Delay 1,
      BeginTransmission 0x68, WireWrite 0x80, WireWrite 0,
      WireWrite 10, WireWrite 10, WireWrite 10, WireWrite 10, WireWrite 10,
      WireWrite 0, WireWrite 0, WireWrite 0,
      WireWrite 0, WireWrite 0, WireWrite 0, WireWrite 0, WireWrite 0,
      WireWrite 0, WireWrite 0, WireWrite 0, EndTransmission, Delay 1] \<and>
   wire (render_pitch_and_drift index_rom logf_cr NaN (Fin 440) (Fin 10) numeric_state) \<noteq>
     placeholder_wire index_rom 0x68 \<and>
   render_pitch_and_drift index_rom logf_cr NaN (Fin 440) (Fin 10) numeric_state =
     print_drift index_rom (fst (snd (frequency_to_note logf_cr NaN (Fin 440))))
       (print_string5 index_rom (fst (frequency_to_note logf_cr NaN (Fin 440))) numeric_state) \<and>
   wire (render_pitch_and_drift index_rom logf_cr NaN (Fin 440) (Fin 10) ht1635_new) = []"
proof -
  have a: "render_pitch_and_drift index_rom logf_cr NaN (Fin 440) (Fin 10) numeric_state =
      print_drift index_rom (Fin 0) (print_string5 index_rom '''' numeric_state)"
    by (simp add: render_pitch_and_drift_def frequency_to_note_def numeric_state_def
        ht1635_new_def)
  have b: "wire (print_drift index_rom (Fin 0) (print_string5 index_rom '''' numeric_state)) =
     [BeginTransmission 0x68, WireWrite 0x80, WireWrite 0, EndTransmission, Delay 1,
      BeginTransmission 0x68, WireWrite 0x80, WireWrite 0,
      WireWrite 10, WireWrite 10, WireWrite 10, WireWrite 10, WireWrite 10,
      WireWrite 0, WireWrite 0, WireWrite 0,
      WireWrite 0, WireWrite 0, WireWrite 0, WireWrite 0, WireWrite 0,
      WireWrite 0, WireWrite 0, WireWrite 0, EndTransmission, Delay 1]"
    by (simp add: print_drift_zero_numeric print_string5_empty upt5 numeric_state_def
        ht1635_new_def index_rom_def HT1635_I2C_ADDRESS_def CMD_DISPLAY_DATA_INPUT_COMMAND_def)
  have c: "wire (render_pitch_and_drift index_rom logf_cr NaN (Fin 440) (Fin 10) ht1635_new) = []"
    by (simp add: render_pitch_and_drift_def display_keyboard_drift_def ht1635_new_def)
  have d: "placeholder_wire index_rom 0x68 ! 3 = WireWrite 13"
    by (simp add: placeholder_wire_def glyph_wire_def index_rom_def upt_rec)
  have e: "wire (render_pitch_and_drift index_rom logf_cr NaN (Fin 440) (Fin 10) numeric_state) ! 3 =
      EndTransmission"
    by (simp only: a b) simp
  have ne: "wire (render_pitch_and_drift index_rom logf_cr NaN (Fin 440) (Fin 10) numeric_state) \<noteq>
      placeholder_wire index_rom 0x68"
  proof
    assume "wire (render_pitch_and_drift index_rom logf_cr NaN (Fin 440) (Fin 10) numeric_state) =
      placeholder_wire index_rom 0x68"
    then have "EndTransmission = WireWrite 13"
      using d e by simp
    then show False by simp
  qed
  have m: "render_pitch_and_drift index_rom logf_cr NaN (Fin 440) (Fin 10) numeric_state =
     print_drift index_rom (fst (snd (frequency_to_note logf_cr NaN (Fin 440))))
       (print_string5 index_rom (fst (frequency_to_note logf_cr NaN (Fin 440))) numeric_state)"
    by (simp only: a) (simp add: frequency_to_note_def)
  have w: "wire (render_pitch_and_drift index_rom logf_cr NaN (Fin 440) (Fin 10) numeric_state) =
     [BeginTransmission 0x68, WireWrite 0x80, WireWrite 0, EndTransmission, Delay 1,
      BeginTransmission 0x68, WireWrite 0x80, WireWrite 0,
      WireWrite 10, WireWrite 10, WireWrite 10, WireWrite 10, WireWrite 10,
      WireWrite 0, WireWrite 0, WireWrite 0,
      WireWrite 0, WireWrite 0, WireWrite 0, WireWrite 0, WireWrite 0,
      WireWrite 0, WireWrite 0, WireWrite 0, EndTransmission, Delay 1]"
    by (simp only: a b)
  show ?thesis
    using w ne m c by simp
qed

section \<open>Properties of the keyboard view\<close>

lemma ln_q440_lo: "(519860443 / 1000000000 :: real) < ln (7053951 / 4194304)"
  by (rule ln_lower) (simp_all add: power_divide)

lemma ln_q440_hi: "ln (7053951 / 4194304) < (259930237 / 500000000 :: real)"
  by (rule ln_upper) (simp_all add: power_divide)

lemma logf_cr_q440: "logf_cr (Fin (7053951 / 4194304)) = Fin (8721811 / 16777216)"
proof -
  have "rnd (ln (7053951 / 4194304)) = Fin (of_int 8721811 * 2 powi (- 1 - 23))"
    by (rule rnd_between [OF ln_q440_lo ln_q440_hi]) (simp_all add: FLT_MAX_def)
  then show ?thesis by simp
qed

lemma semitones_a440: "semitones_from_c4 logf_cr (Fin 440) (Fin 440) = Fin (9437185 / 1048576)"
proof -
  have c4: "fmul (Fin 440) (Fin A2C4) = Fin (4286473 / 16384)"
    by (simp add: A2C4_def, subst rnd_binade [of "8"]) (simp_all add: rne_def Let_def FLT_MAX_def)
  have q: "fdiv (Fin 440) (Fin (4286473 / 16384)) = Fin (7053951 / 4194304)"
    by (simp, subst rnd_binade [of "0"]) (simp_all add: rne_def Let_def FLT_MAX_def)
  have r: "fmul (Fin (8721811 / 16777216)) (Fin INV_LN2) = Fin (12582913 / 16777216)"
    by (simp add: INV_LN2_def, subst rnd_binade [of "- 1"]) (simp_all add: rne_def Let_def FLT_MAX_def)
  have s: "fmul (Fin 12) (Fin (12582913 / 16777216)) = Fin (9437185 / 1048576)"
    by (simp, subst rnd_binade [of "3"]) (simp_all add: rne_def Let_def FLT_MAX_def)
  show ?thesis
    by (simp only: semitones_from_c4_def Let_def c4 q logf_cr_q440 r s)
qed

lemma column_a440: "column_of_position (Fin (9437185 / 1048576)) = (22, 4)"
proof -
  have fr: "fsub (Fin (9437185 / 1048576)) (Fin 9) = Fin (1 / 1048576)"
    by (simp add: fsub_def, subst rnd_binade [of "- 20"]) (simp_all add: rne_def Let_def FLT_MAX_def)
  have om: "fsub (Fin 1) (Fin (1 / 1048576)) = Fin (1048575 / 1048576)"
    by (simp add: fsub_def, subst rnd_binade [of "- 1"]) (simp_all add: rne_def Let_def FLT_MAX_def)
  have t1: "fmul (Fin 22) (Fin (1048575 / 1048576)) = Fin (11534325 / 524288)"
    by (simp, subst rnd_binade [of "4"]) (simp_all add: rne_def Let_def FLT_MAX_def)
  have t2: "fmul (Fin 24) (Fin (1 / 1048576)) = Fin (3 / 131072)"
    by (simp, subst rnd_binade [of "- 16"]) (simp_all add: rne_def Let_def FLT_MAX_def)
  have cf: "fadd (Fin (11534325 / 524288)) (Fin (3 / 131072)) = Fin (11534337 / 524288)"
    by (simp, subst rnd_binade [of "4"]) (simp_all add: rne_def Let_def FLT_MAX_def)
  have w: "fadd (Fin (11534337 / 524288)) (Fin (1 / 2)) = Fin (11796481 / 524288)"
    by (simp, subst rnd_binade [of "4"]) (simp_all add: rne_def Let_def FLT_MAX_def)
  show ?thesis
    by (simp add: column_of_position_def Let_def interpolate_column_def note_pixel_center_def
        int16_cast_def int8_cast_def uint8_cast_def c_div_def c_mod_def trunc_real_def constrain_def
        fr om t1 t2 cf w del: fadd.simps fmul.simps)
qed

lemma keyboard_position_a440: "keyboard_position logf_cr 440 440 = (22, 4)"
  by (simp only: keyboard_position_def semitones_a440 column_a440)

lemma keyboard_col_range:
  "0 \<le> fst (keyboard_position lf f a) \<and> fst (keyboard_position lf f a) \<le> 27"
  by (simp add: keyboard_position_def column_of_position_def Let_def constrain_def)

lemma int8_cast_col: "0 \<le> c \<Longrightarrow> c \<le> 27 \<Longrightarrow> int8_cast c = c"
  unfolding int8_cast_def
  by (simp add: sint_sbintrunc' signed_take_bit_int_eq_self_iff)

lemma write_byte_simps [simp]:
  "wire (write_byte i v s) = wire s @ write_byte_wire (device_i2c_addr s) i v"
  "bitmap_buffer (write_byte i v s) = bitmap_buffer s"
  "device_i2c_addr (write_byte i v s) = device_i2c_addr s"
  "s_prev_col (write_byte i v s) = s_prev_col s"
  "s_prev_note_idx (write_byte i v s) = s_prev_note_idx s"
  "s_prev_alt (write_byte i v s) = s_prev_alt s"
  "s_prev_octave (write_byte i v s) = s_prev_octave s"
  "tuner_view_mode (write_byte i v s) = tuner_view_mode s"
  by (simp_all add: write_byte_def Let_def)

lemma cursor5_state_eq:
  "cursor5_state = ht1635_new\<lparr>memory_pointer := 8,
      bitmap_buffer := (replicate 40 0)[6 := 4], s_prev_col := 5,
      wire := write_byte_wire 0x68 6 4\<rparr>"
  by (simp add: cursor5_state_def keyboard_cursor_def ht1635_new_def col_to_buf_row6_def
      Let_def write_byte_def emit_def int8_cast_def HT1635_I2C_ADDRESS_def
      HT_RAM_LAST_ADDRESS_def)

lemma label_a4:
  "keyboard_label r 22 4 s =
     (if s_prev_note_idx s = 5 \<and> s_prev_alt s = 0 \<and> s_prev_octave s = 4 then s
      else (emit (label_wire r (device_i2c_addr s) 5 0 4) s)
             \<lparr>s_prev_note_idx := 5, s_prev_alt := 0, s_prev_octave := 4\<rparr>)"
  by (simp add: keyboard_label_def kCol2NoteIdx_def kCol2Alter_def constrain_def int8_cast_def
      Let_def)

subsection \<open>The cursor pixel\<close>

text \<open>
  C9 (amended). In the keyboard view the cursor column is rounded and clamped to
  \<open>[0, 27]\<close> before it indexes a table or a pixel, and \<open>display_keyboard_drift\<close> is
  the cursor update followed by the label update. When the new column is the previous
  one the cursor update writes nothing and changes nothing. When it differs and the
  previous column is a column (0 to 27), exactly two single-byte writes occur: the byte
  of the previous pixel with that pixel toggled, then the byte of the new pixel with
  that pixel toggled. When it differs and there is no previous column (the value
  \<open>-1\<close> set on entering the view), exactly one single-byte write occurs, that of the
  new pixel.
\<close>

theorem keyboard_cursor_writes:
  assumes "0 < f" and "keyboard_position lf f (concert_a_or_default a) = (col, oct)"
  shows "0 \<le> col \<and> col \<le> 27 \<and>
     display_keyboard_drift r lf (Fin f) a s = keyboard_label r col oct (keyboard_cursor col s) \<and>
     (col = s_prev_col s \<longrightarrow> keyboard_cursor col s = s) \<and>
     (col \<noteq> s_prev_col s \<and> 0 \<le> s_prev_col s \<and> s_prev_col s \<le> 27 \<longrightarrow>
        (let (pidx, pmask) = col_to_buf_row6 (nat (s_prev_col s));
             (bidx, bmask) = col_to_buf_row6 (nat col);
             buf1 = (bitmap_buffer s)[pidx := bitmap_buffer s ! pidx XOR pmask];
             buf2 = buf1[bidx := buf1 ! bidx XOR bmask]
         in wire (keyboard_cursor col s) =
              wire s @ write_byte_wire (device_i2c_addr s) (of_nat pidx) (buf1 ! pidx)
                     @ write_byte_wire (device_i2c_addr s) (of_nat bidx) (buf2 ! bidx) \<and>
            bitmap_buffer (keyboard_cursor col s) = buf2 \<and>
            s_prev_col (keyboard_cursor col s) = col)) \<and>
     (col \<noteq> s_prev_col s \<and> \<not> (0 \<le> s_prev_col s \<and> s_prev_col s \<le> 27) \<longrightarrow>
        (let (bidx, bmask) = col_to_buf_row6 (nat col);
             buf2 = (bitmap_buffer s)[bidx := bitmap_buffer s ! bidx XOR bmask]
         in wire (keyboard_cursor col s) =
              wire s @ write_byte_wire (device_i2c_addr s) (of_nat bidx) (buf2 ! bidx) \<and>
            bitmap_buffer (keyboard_cursor col s) = buf2 \<and>
            s_prev_col (keyboard_cursor col s) = col))"
proof -
  have rng: "0 \<le> col \<and> col \<le> 27"
    using keyboard_col_range [of lf f "concert_a_or_default a"] assms(2) by simp
  have drift: "display_keyboard_drift r lf (Fin f) a s = keyboard_label r col oct (keyboard_cursor col s)"
    using assms by (simp add: display_keyboard_drift_def)
  have same: "col = s_prev_col s \<longrightarrow> keyboard_cursor col s = s"
    by (simp add: keyboard_cursor_def)
  have c8: "int8_cast col = col"
    using rng by (simp add: int8_cast_col)
  have two: "col \<noteq> s_prev_col s \<and> 0 \<le> s_prev_col s \<and> s_prev_col s \<le> 27 \<longrightarrow>
        (let (pidx, pmask) = col_to_buf_row6 (nat (s_prev_col s));
             (bidx, bmask) = col_to_buf_row6 (nat col);
             buf1 = (bitmap_buffer s)[pidx := bitmap_buffer s ! pidx XOR pmask];
             buf2 = buf1[bidx := buf1 ! bidx XOR bmask]
         in wire (keyboard_cursor col s) =
              wire s @ write_byte_wire (device_i2c_addr s) (of_nat pidx) (buf1 ! pidx)
                     @ write_byte_wire (device_i2c_addr s) (of_nat bidx) (buf2 ! bidx) \<and>
            bitmap_buffer (keyboard_cursor col s) = buf2 \<and>
            s_prev_col (keyboard_cursor col s) = col)"
    by (simp add: keyboard_cursor_def Let_def c8 split: prod.splits)
  have one: "col \<noteq> s_prev_col s \<and> \<not> (0 \<le> s_prev_col s \<and> s_prev_col s \<le> 27) \<longrightarrow>
        (let (bidx, bmask) = col_to_buf_row6 (nat col);
             buf2 = (bitmap_buffer s)[bidx := bitmap_buffer s ! bidx XOR bmask]
         in wire (keyboard_cursor col s) =
              wire s @ write_byte_wire (device_i2c_addr s) (of_nat bidx) (buf2 ! bidx) \<and>
            bitmap_buffer (keyboard_cursor col s) = buf2 \<and>
            s_prev_col (keyboard_cursor col s) = col)"
    by (simp add: keyboard_cursor_def Let_def c8 split: prod.splits)
  show ?thesis
    using rng drift same two one by blast
qed

theorem keyboard_cursor_writes_witness:
  "(0 :: real) < 440 \<and> keyboard_position logf_cr 440 (concert_a_or_default (Fin 440)) = (22, 4) \<and>
   22 \<noteq> s_prev_col cursor5_state \<and> 0 \<le> s_prev_col cursor5_state \<and>
   s_prev_col cursor5_state \<le> 27 \<and>
   wire (keyboard_cursor 22 cursor5_state) =
     wire cursor5_state @ write_byte_wire 0x68 6 0 @ write_byte_wire 0x68 22 2"
proof -
  have p: "keyboard_position logf_cr 440 (concert_a_or_default (Fin 440)) = (22, 4)"
    by (simp add: concert_a_or_default_def keyboard_position_a440)
  have c: "s_prev_col cursor5_state = 5" "device_i2c_addr cursor5_state = 0x68"
    "bitmap_buffer cursor5_state = (replicate 40 0)[6 := 4]"
    by (simp_all add: cursor5_state_eq ht1635_new_def HT1635_I2C_ADDRESS_def)
  show ?thesis
    using keyboard_cursor_writes [where lf = logf_cr and f = 440 and a = "Fin 440" and col = 22 and oct = 4
        and r = index_rom and s = cursor5_state] p
    by (simp add: c col_to_buf_row6_def Let_def)
qed

text \<open>
  C9 as stated fails on the first draw after the view is entered: the column differs
  from the stored \<open>-1\<close>, and the only single-byte write is the one of the new pixel
  (here 440 Hz, column 22, byte 22, mask 2); the label transaction follows.
\<close>

theorem keyboard_first_cursor_single_write:
  "keyboard_position logf_cr 440 (concert_a_or_default (Fin 440)) = (22, 4) \<and>
   22 \<noteq> s_prev_col ht1635_new \<and>
   wire (keyboard_cursor 22 ht1635_new) = write_byte_wire 0x68 22 2 \<and>
   wire (display_keyboard_drift index_rom logf_cr (Fin 440) (Fin 440) ht1635_new) =
     write_byte_wire 0x68 22 2 @ label_wire index_rom 0x68 5 0 4"
proof -
  have p: "keyboard_position logf_cr 440 (concert_a_or_default (Fin 440)) = (22, 4)"
    by (simp add: concert_a_or_default_def keyboard_position_a440)
  have k: "keyboard_cursor 22 ht1635_new =
      ht1635_new\<lparr>memory_pointer := 24, bitmap_buffer := (replicate 40 0)[22 := 2],
        s_prev_col := 22, wire := write_byte_wire 0x68 22 2\<rparr>"
    by (simp add: keyboard_cursor_def ht1635_new_def col_to_buf_row6_def
      Let_def write_byte_def emit_def int8_cast_def HT1635_I2C_ADDRESS_def
      HT_RAM_LAST_ADDRESS_def)
  have d: "display_keyboard_drift index_rom logf_cr (Fin 440) (Fin 440) ht1635_new =
      keyboard_label index_rom 22 4 (keyboard_cursor 22 ht1635_new)"
    by (simp add: display_keyboard_drift_def p)
  have w: "wire (display_keyboard_drift index_rom logf_cr (Fin 440) (Fin 440) ht1635_new) =
     write_byte_wire 0x68 22 2 @ label_wire index_rom 0x68 5 0 4"
    by (simp only: d k) (simp add: label_a4 ht1635_new_def HT1635_I2C_ADDRESS_def)
  have c1: "22 \<noteq> s_prev_col ht1635_new"
    by (simp add: ht1635_new_def)
  have c2: "wire (keyboard_cursor 22 ht1635_new) = write_byte_wire 0x68 22 2"
    by (simp only: k) simp
  show ?thesis
    using p c1 c2 w by blast
qed

section \<open>Properties of the mode switch\<close>

lemma clear_display_eq:
  "clear_display s =
     s\<lparr>bitmap_buffer := replicate 40 0, memory_pointer := 0,
       wire := wire s @ clear_wire (device_i2c_addr s)\<rparr>"
  by (simp add: clear_display_def ParamTx_def Let_def emit_def clear_wire_def upt_rec
      HT_RAM_LAST_ADDRESS_def)

lemma sendout_loop_done: "i2c_sendout_loop 40 ram s = s"
  by (subst i2c_sendout_loop.simps) (simp add: HT_RAM_LAST_ADDRESS_def)

lemma sendout_loop_30:
  "i2c_sendout_loop 30 ram s =
     emit ([BeginTransmission (device_i2c_addr s), WireWrite CMD_DISPLAY_DATA_INPUT_COMMAND,
            WireWrite ram]
           @ map (\<lambda>j. WireWrite (bitmap_buffer s ! (30 + j))) [0..<10]
           @ [EndTransmission, Delay 1]) s"
  by (subst i2c_sendout_loop.simps)
     (simp add: HT_RAM_LAST_ADDRESS_def Let_def sendout_loop_done)

lemma i2c_sendout_bitmap_eq:
  "i2c_sendout_bitmap 0 s = emit (bitmap_wire (device_i2c_addr s) (bitmap_buffer s)) s"
  unfolding i2c_sendout_bitmap_def
  by (subst i2c_sendout_loop.simps)
     (simp add: HT_RAM_LAST_ADDRESS_def Let_def sendout_loop_30 emit_emit bitmap_wire_def)

lemma display_keyboard_eq:
  "display_keyboard r s =
     s\<lparr>bitmap_buffer := font_keyboard r @ drop (length (font_keyboard r)) (bitmap_buffer s),
       s_prev_col := - 1, s_prev_note_idx := 0xFF, s_prev_alt := 99, s_prev_octave := 99,
       wire := wire s @ bitmap_wire (device_i2c_addr s)
                 (font_keyboard r @ drop (length (font_keyboard r)) (bitmap_buffer s))\<rparr>"
  by (simp add: display_keyboard_def Let_def i2c_sendout_bitmap_eq emit_def)

lemma set_mode_piano:
  "snd (set_tuner_view_mode r piano_view s) =
     s\<lparr>memory_pointer := 0, tuner_view_mode := piano_view,
       bitmap_buffer := font_keyboard r @ drop (length (font_keyboard r)) (replicate 40 0),
       s_prev_col := - 1, s_prev_note_idx := 0xFF, s_prev_alt := 99, s_prev_octave := 99,
       wire := wire s @ clear_wire (device_i2c_addr s)
                 @ bitmap_wire (device_i2c_addr s)
                     (font_keyboard r @ drop (length (font_keyboard r)) (replicate 40 0))\<rparr>"
  by (simp add: set_tuner_view_mode_def update_display_def Let_def clear_display_eq
      display_keyboard_eq)

lemma set_mode_other:
  "mode \<noteq> piano_view \<Longrightarrow>
   snd (set_tuner_view_mode r mode s) =
     s\<lparr>memory_pointer := 0, tuner_view_mode := mode, bitmap_buffer := replicate 40 0,
       wire := wire s @ clear_wire (device_i2c_addr s) @ clear_wire (device_i2c_addr s)\<rparr>"
  by (simp add: set_tuner_view_mode_def update_display_def Let_def clear_display_eq)

lemma set_mode_fst: "fst (set_tuner_view_mode r mode s) = mode"
  by (cases "mode = piano_view")
     (simp_all add: set_tuner_view_mode_def update_display_def Let_def clear_display_eq
        display_keyboard_eq)

lemma kCol2NoteIdx_small: "c < 28 \<Longrightarrow> kCol2NoteIdx ! c \<noteq> 0xFF"
proof -
  assume "c < 28"
  then have "kCol2NoteIdx ! c \<in> set kCol2NoteIdx"
    by (intro nth_mem) (simp add: kCol2NoteIdx_def)
  then show ?thesis
    by (auto simp: kCol2NoteIdx_def)
qed

lemma first_draw:
  assumes "0 < f" and "s_prev_col s = - 1" and "s_prev_note_idx s = 0xFF"
    and "keyboard_position lf f (concert_a_or_default a) = (col, oct)"
    and "col_to_buf_row6 (nat col) = (bidx, bmask)"
  shows "wire (display_keyboard_drift r lf (Fin f) a s) =
           wire s @ write_byte_wire (device_i2c_addr s) (of_nat bidx)
                      ((bitmap_buffer s)[bidx := bitmap_buffer s ! bidx XOR bmask] ! bidx)
                  @ label_wire r (device_i2c_addr s) (kCol2NoteIdx ! nat col)
                      (kCol2Alter ! nat col) (int8_cast (constrain oct 0 9))"
proof -
  have rng: "0 \<le> col \<and> col \<le> 27"
    using keyboard_col_range [of lf f "concert_a_or_default a"] assms(4) by simp
  then have "nat col < 28" by linarith
  then have n: "kCol2NoteIdx ! nat col \<noteq> 0xFF"
    by (rule kCol2NoteIdx_small)
  have ne: "col \<noteq> s_prev_col s" using rng assms(2) by simp
  show ?thesis
    using assms n ne
    by (simp add: display_keyboard_drift_def keyboard_cursor_def keyboard_label_def Let_def)
qed

lemma a4_drawn_state_prev:
  "s_prev_col a4_drawn_state = 22 \<and> s_prev_note_idx a4_drawn_state = 5 \<and>
   s_prev_alt a4_drawn_state = 0 \<and> s_prev_octave a4_drawn_state = 4"
proof -
  have p: "keyboard_position logf_cr 440 (concert_a_or_default (Fin 440)) = (22, 4)"
    by (simp add: concert_a_or_default_def keyboard_position_a440)
  have d: "a4_drawn_state = keyboard_label index_rom 22 4 (keyboard_cursor 22 ht1635_new)"
    by (simp add: a4_drawn_state_def display_keyboard_drift_def p)
  have k: "s_prev_col (keyboard_cursor 22 ht1635_new) = 22"
    "s_prev_note_idx (keyboard_cursor 22 ht1635_new) = 0xFF"
    by (simp_all add: keyboard_cursor_def ht1635_new_def col_to_buf_row6_def Let_def
        int8_cast_def)
  show ?thesis
    by (simp only: d label_a4) (simp add: k)
qed

text \<open>
  C8 (amended). Every \<open>set_tuner_view_mode\<close> stores the mode and clears the display,
  whatever the state of the keyboard view's variables. A switch to the keyboard view
  then copies the keyboard bitmap into the buffer, sends the whole buffer, and resets
  the previous cursor column and the previous label triple to their "unknown" values
  \<open>-1\<close>, \<open>0xFF\<close>, 99 and 99, so that the next draw of any positive finite frequency
  writes the cursor pixel and the label. A switch to another view clears the display a
  second time and leaves those four variables as they were; there is no previous bar
  mask, and the numeric and bar-graph views write their whole content at every render.
\<close>

theorem set_tuner_view_mode_redraw:
  "fst (set_tuner_view_mode r mode s) = mode \<and>
   tuner_view_mode (snd (set_tuner_view_mode r mode s)) = mode \<and>
   (mode = piano_view \<longrightarrow>
      (let s' = snd (set_tuner_view_mode r mode s); addr = device_i2c_addr s in
       bitmap_buffer s' = font_keyboard r @ drop (length (font_keyboard r)) (replicate 40 0) \<and>
       wire s' = wire s @ clear_wire addr @ bitmap_wire addr (bitmap_buffer s') \<and>
       s_prev_col s' = - 1 \<and> s_prev_note_idx s' = 0xFF \<and>
       s_prev_alt s' = 99 \<and> s_prev_octave s' = 99 \<and>
       (\<forall>lf f a col oct bidx bmask.
           0 < f \<and> keyboard_position lf f (concert_a_or_default a) = (col, oct) \<and>
           col_to_buf_row6 (nat col) = (bidx, bmask) \<longrightarrow>
           wire (display_keyboard_drift r lf (Fin f) a s') =
             wire s' @ write_byte_wire addr (of_nat bidx)
                         ((bitmap_buffer s')[bidx := bitmap_buffer s' ! bidx XOR bmask] ! bidx)
                     @ label_wire r addr (kCol2NoteIdx ! nat col) (kCol2Alter ! nat col)
                         (int8_cast (constrain oct 0 9))))) \<and>
   (mode \<noteq> piano_view \<longrightarrow>
      (let s' = snd (set_tuner_view_mode r mode s); addr = device_i2c_addr s in
       bitmap_buffer s' = replicate 40 0 \<and>
       wire s' = wire s @ clear_wire addr @ clear_wire addr \<and>
       s_prev_col s' = s_prev_col s \<and> s_prev_note_idx s' = s_prev_note_idx s \<and>
       s_prev_alt s' = s_prev_alt s \<and> s_prev_octave s' = s_prev_octave s))"
proof -
  let ?s = "snd (set_tuner_view_mode r mode s)"
  have m: "tuner_view_mode ?s = mode"
    by (cases "mode = piano_view") (simp_all add: set_mode_piano set_mode_other)
  have other: "mode \<noteq> piano_view \<longrightarrow>
      (let s' = ?s; addr = device_i2c_addr s in
       bitmap_buffer s' = replicate 40 0 \<and>
       wire s' = wire s @ clear_wire addr @ clear_wire addr \<and>
       s_prev_col s' = s_prev_col s \<and> s_prev_note_idx s' = s_prev_note_idx s \<and>
       s_prev_alt s' = s_prev_alt s \<and> s_prev_octave s' = s_prev_octave s)"
    by (simp add: set_mode_other Let_def)
  have piano: "mode = piano_view \<longrightarrow>
      (let s' = ?s; addr = device_i2c_addr s in
       bitmap_buffer s' = font_keyboard r @ drop (length (font_keyboard r)) (replicate 40 0) \<and>
       wire s' = wire s @ clear_wire addr @ bitmap_wire addr (bitmap_buffer s') \<and>
       s_prev_col s' = - 1 \<and> s_prev_note_idx s' = 0xFF \<and>
       s_prev_alt s' = 99 \<and> s_prev_octave s' = 99 \<and>
       (\<forall>lf f a col oct bidx bmask.
           0 < f \<and> keyboard_position lf f (concert_a_or_default a) = (col, oct) \<and>
           col_to_buf_row6 (nat col) = (bidx, bmask) \<longrightarrow>
           wire (display_keyboard_drift r lf (Fin f) a s') =
             wire s' @ write_byte_wire addr (of_nat bidx)
                         ((bitmap_buffer s')[bidx := bitmap_buffer s' ! bidx XOR bmask] ! bidx)
                     @ label_wire r addr (kCol2NoteIdx ! nat col) (kCol2Alter ! nat col)
                         (int8_cast (constrain oct 0 9))))"
  proof
    assume p: "mode = piano_view"
    have d: "device_i2c_addr ?s = device_i2c_addr s" "s_prev_col ?s = - 1"
      "s_prev_note_idx ?s = 0xFF"
      by (simp_all add: p set_mode_piano)
    have "\<forall>lf f a col oct bidx bmask.
           0 < f \<and> keyboard_position lf f (concert_a_or_default a) = (col, oct) \<and>
           col_to_buf_row6 (nat col) = (bidx, bmask) \<longrightarrow>
           wire (display_keyboard_drift r lf (Fin f) a ?s) =
             wire ?s @ write_byte_wire (device_i2c_addr s) (of_nat bidx)
                         ((bitmap_buffer ?s)[bidx := bitmap_buffer ?s ! bidx XOR bmask] ! bidx)
                     @ label_wire r (device_i2c_addr s) (kCol2NoteIdx ! nat col) (kCol2Alter ! nat col)
                         (int8_cast (constrain oct 0 9))"
      using first_draw [where s = ?s and r = r] d by metis
    then show "let s' = ?s; addr = device_i2c_addr s in
       bitmap_buffer s' = font_keyboard r @ drop (length (font_keyboard r)) (replicate 40 0) \<and>
       wire s' = wire s @ clear_wire addr @ bitmap_wire addr (bitmap_buffer s') \<and>
       s_prev_col s' = - 1 \<and> s_prev_note_idx s' = 0xFF \<and>
       s_prev_alt s' = 99 \<and> s_prev_octave s' = 99 \<and>
       (\<forall>lf f a col oct bidx bmask.
           0 < f \<and> keyboard_position lf f (concert_a_or_default a) = (col, oct) \<and>
           col_to_buf_row6 (nat col) = (bidx, bmask) \<longrightarrow>
           wire (display_keyboard_drift r lf (Fin f) a s') =
             wire s' @ write_byte_wire addr (of_nat bidx)
                         ((bitmap_buffer s')[bidx := bitmap_buffer s' ! bidx XOR bmask] ! bidx)
                     @ label_wire r addr (kCol2NoteIdx ! nat col) (kCol2Alter ! nat col)
                         (int8_cast (constrain oct 0 9)))"
      unfolding Let_def by (simp add: p set_mode_piano)
  qed
  show ?thesis
    using set_mode_fst [of r mode s] m other piano by blast
qed

theorem set_tuner_view_mode_redraw_witness:
  "s_prev_col cursor5_state = 5 \<and>
   s_prev_col (snd (set_tuner_view_mode index_rom piano_view cursor5_state)) = - 1 \<and>
   s_prev_note_idx (snd (set_tuner_view_mode index_rom piano_view cursor5_state)) = 0xFF \<and>
   bitmap_buffer (snd (set_tuner_view_mode index_rom piano_view cursor5_state)) = replicate 40 0x81 \<and>
   wire (display_keyboard_drift index_rom logf_cr (Fin 440) (Fin 440)
           (snd (set_tuner_view_mode index_rom piano_view cursor5_state))) =
     wire (snd (set_tuner_view_mode index_rom piano_view cursor5_state))
       @ write_byte_wire 0x68 22 0x83 @ label_wire index_rom 0x68 5 0 4 \<and>
   numeric \<noteq> piano_view \<and>
   bitmap_buffer (snd (set_tuner_view_mode index_rom numeric cursor5_state)) = replicate 40 0 \<and>
   wire (snd (set_tuner_view_mode index_rom numeric cursor5_state)) =
     wire cursor5_state @ clear_wire 0x68 @ clear_wire 0x68"
proof -
  let ?s = "snd (set_tuner_view_mode index_rom piano_view cursor5_state)"
  have c: "s_prev_col cursor5_state = 5" "device_i2c_addr cursor5_state = 0x68"
    by (simp_all add: cursor5_state_eq ht1635_new_def HT1635_I2C_ADDRESS_def)
  have p: "keyboard_position logf_cr 440 (concert_a_or_default (Fin 440)) = (22, 4)"
    by (simp add: concert_a_or_default_def keyboard_position_a440)
  have b: "col_to_buf_row6 (nat 22) = (22, 2)"
    by (simp add: col_to_buf_row6_def)
  have f: "font_keyboard index_rom @ drop (length (font_keyboard index_rom)) (replicate 40 0) =
      replicate 40 0x81"
    by (simp add: index_rom_def)
  have t: "kCol2NoteIdx ! nat 22 = 5" "kCol2Alter ! nat 22 = 0" "int8_cast (constrain 4 0 9) = 4"
    by (simp_all add: kCol2NoteIdx_def kCol2Alter_def constrain_def int8_cast_def)
  note T = set_tuner_view_mode_redraw [of index_rom piano_view cursor5_state, unfolded Let_def]
  from T have T1: "bitmap_buffer ?s = replicate 40 0x81"
    "s_prev_col ?s = - 1" "s_prev_note_idx ?s = 0xFF"
    unfolding f by blast+
  from T have T2: "\<forall>lf f a col oct bidx bmask.
           0 < f \<and> keyboard_position lf f (concert_a_or_default a) = (col, oct) \<and>
           col_to_buf_row6 (nat col) = (bidx, bmask) \<longrightarrow>
           wire (display_keyboard_drift index_rom lf (Fin f) a ?s) =
             wire ?s @ write_byte_wire (device_i2c_addr cursor5_state) (of_nat bidx)
                         ((bitmap_buffer ?s)[bidx := bitmap_buffer ?s ! bidx XOR bmask] ! bidx)
                     @ label_wire index_rom (device_i2c_addr cursor5_state) (kCol2NoteIdx ! nat col) (kCol2Alter ! nat col)
                         (int8_cast (constrain oct 0 9))"
    by blast
  have w: "wire (display_keyboard_drift index_rom logf_cr (Fin 440) (Fin 440) ?s) =
             wire ?s @ write_byte_wire (device_i2c_addr cursor5_state) (of_nat 22)
                         ((bitmap_buffer ?s)[22 := bitmap_buffer ?s ! 22 XOR 2] ! 22)
                     @ label_wire index_rom (device_i2c_addr cursor5_state) (kCol2NoteIdx ! nat 22) (kCol2Alter ! nat 22)
                         (int8_cast (constrain 4 0 9))"
    using T2 [rule_format, where lf = logf_cr and f = 440 and a = "Fin 440" and col = 22 and oct = 4
        and bidx = 22 and bmask = 2] p b by simp
  have w': "wire (display_keyboard_drift index_rom logf_cr (Fin 440) (Fin 440) ?s) =
     wire ?s @ write_byte_wire 0x68 22 0x83 @ label_wire index_rom 0x68 5 0 4"
    using w unfolding T1 t c by simp
  note N = set_tuner_view_mode_redraw [of index_rom numeric cursor5_state, unfolded Let_def]
  from N have nw: "bitmap_buffer (snd (set_tuner_view_mode index_rom numeric cursor5_state)) = replicate 40 0"
      "wire (snd (set_tuner_view_mode index_rom numeric cursor5_state)) =
        wire cursor5_state @ clear_wire 0x68 @ clear_wire 0x68"
    unfolding c by simp_all
  show ?thesis
    using T1 w' nw c(1) by simp
qed

text \<open>
  C8 as stated fails for a switch away from the keyboard view: after 440 Hz has been
  drawn, a switch to the bar graph leaves the previous column 22 and the previous
  label (5, 0, 4) in place.
\<close>

theorem set_tuner_view_mode_keeps_cursor_state:
  "s_prev_col a4_drawn_state = 22 \<and> s_prev_note_idx a4_drawn_state = 5 \<and>
   s_prev_alt a4_drawn_state = 0 \<and> s_prev_octave a4_drawn_state = 4 \<and>
   fst (set_tuner_view_mode index_rom bar_graph a4_drawn_state) = bar_graph \<and>
   s_prev_col (snd (set_tuner_view_mode index_rom bar_graph a4_drawn_state)) = 22 \<and>
   s_prev_note_idx (snd (set_tuner_view_mode index_rom bar_graph a4_drawn_state)) = 5 \<and>
   s_prev_alt (snd (set_tuner_view_mode index_rom bar_graph a4_drawn_state)) = 0 \<and>
   s_prev_octave (snd (set_tuner_view_mode index_rom bar_graph a4_drawn_state)) = 4"
  using a4_drawn_state_prev by (simp add: set_mode_other set_mode_fst)

end
